theory Spec2Isabelle
  imports Complex_Main "HOL-Library.Word" "HOL-Library.Log_Nat"
begin

section \<open>C strings and the libc calls the printer object uses\<close>

text \<open>
  A C string is modelled by the list of its bytes before the terminating NUL, so
  \<open>length\<close> is \<open>strlen\<close>. \<open>strcmp\<close> compares bytes as unsigned values and only the
  sign of its result is specified; the model returns -1, 0 or 1.
\<close>

fun strcmp :: "string \<Rightarrow> string \<Rightarrow> int" where
  "strcmp [] [] = 0"
| "strcmp [] (y # ys) = -1"
| "strcmp (x # xs) [] = 1"
| "strcmp (x # xs) (y # ys) =
     (if (of_char x :: nat) < of_char y then -1
      else if (of_char y :: nat) < of_char x then 1
      else strcmp xs ys)"

text \<open>\<open>strncmp a b n\<close> compares at most \<open>n\<close> bytes of each string.\<close>

definition strncmp :: "string \<Rightarrow> string \<Rightarrow> nat \<Rightarrow> int" where
  "strncmp a b n = strcmp (take n a) (take n b)"

text \<open>
  \<open>char_at s i\<close> is the C expression \<open>s[i]\<close> for \<open>i \<le> strlen(s)\<close>: a byte of the
  string, or the terminating NUL at \<open>i = strlen(s)\<close>.
\<close>

definition char_at :: "string \<Rightarrow> nat \<Rightarrow> char" where
  "char_at s i = (if i < length s then s ! i else CHR 0x00)"

definition isdigit :: "char \<Rightarrow> bool" where
  "isdigit c = (48 \<le> (of_char c :: nat) \<and> (of_char c :: nat) \<le> 57)"

definition INT_MAX :: int where
  "INT_MAX = 2147483647"

section \<open>Data model\<close>

datatype ipp_enum =
    IPP_OP_PRINT_JOB | IPP_OP_VALIDATE_JOB | IPP_OP_CREATE_JOB | IPP_OP_SEND_DOCUMENT
  | IPP_OP_CANCEL_JOB | IPP_OP_GET_JOB_ATTRIBUTES | IPP_OP_GET_JOBS
  | IPP_OP_GET_PRINTER_ATTRIBUTES | IPP_OP_SET_PRINTER_ATTRIBUTES | IPP_OP_CANCEL_MY_JOBS
  | IPP_OP_CLOSE_JOB | IPP_OP_IDENTIFY_PRINTER
  | IPP_ORIENT_PORTRAIT | IPP_ORIENT_LANDSCAPE | IPP_ORIENT_REVERSE_LANDSCAPE
  | IPP_ORIENT_REVERSE_PORTRAIT | IPP_ORIENT_NONE
  | IPP_QUALITY_DRAFT | IPP_QUALITY_NORMAL | IPP_QUALITY_HIGH

datatype ipp_pstate = IPP_PSTATE_IDLE | IPP_PSTATE_PROCESSING | IPP_PSTATE_STOPPED

text \<open>The values the \<open>ippAdd...\<close> calls of \<open>papplPrinterCreate\<close> store.\<close>

datatype ipp_value =
    IppString string
  | IppStrings "string list"
  | IppInteger int
  | IppEnum ipp_enum
  | IppEnums "ipp_enum list"
  | IppRange int int
  | IppBoolean bool

type_synonym ipp_t = "(string \<times> ipp_value) list"

record pappl_driver_data =
  format :: "string option"

record pappl_printer =
  printer_id :: int
  name :: string
  dns_sd_name :: string
  resource :: string
  resourcelen :: nat
  device_uri :: string
  driver_name :: string
  driver_data :: pappl_driver_data
  attrs :: ipp_t
  start_time :: int
  config_time :: int
  state :: ipp_pstate
  state_reasons :: nat
  state_time :: int
  all_jobs :: "int list"
  active_jobs :: "int list"
  completed_jobs :: "int list"
  next_job_id :: int

record pappl_system =
  directory :: string
  subtypes :: "string option"
  printers :: "pappl_printer list"
  next_printer_id :: int
  default_printer_id :: int

text \<open>Build-time configuration: the preprocessor symbols the source tests.\<close>

record build_config =
  have_libjpeg :: bool
  have_libpng :: bool
  have_arc4random :: bool
  have_getrandom :: bool
  have_gnutls_rnd :: bool

text \<open>
  The two fields of \<open>struct statfs\<close> the source reads: the block size and the number of
  blocks of the file system, both counts.
\<close>

record statfs_info =
  f_bsize :: nat
  f_blocks :: nat

text \<open>
  What the outside world answers during one call of \<open>papplPrinterCreate\<close>: whether
  \<open>calloc\<close> succeeds and the text of \<open>strerror(errno)\<close> when it does not, what
  \<open>statfs\<close> reports for the spool directory (\<open>None\<close> when it fails), the clock, and
  the text \<open>_papplSystemMakeUUID\<close> writes. The source checks no other allocation
  (\<open>strdup\<close>, \<open>ippNew\<close>, the arrays); they are taken to succeed.
\<close>

record create_env =
  alloc_ok :: bool
  strerror_errno :: string
  statfs_result :: "statfs_info option"
  now :: int
  made_uuid :: string

datatype loglevel = PAPPL_LOGLEVEL_DEBUG | PAPPL_LOGLEVEL_ERROR

datatype action =
    Log loglevel string
  | RegisterDNSSD string

text \<open>
  \<open>system->next_printer_id ++\<close> is an increment of a C \<open>int\<close>: at \<open>INT_MAX\<close> it is a
  signed overflow, which C leaves undefined. The model makes that outcome a value.
\<close>

datatype fault = SignedOverflow

section \<open>The printer collection\<close>

definition compare_printers :: "pappl_printer \<Rightarrow> pappl_printer \<Rightarrow> int" where
  "compare_printers a b = strcmp (name a) (name b)"

text \<open>
  \<open>system->printers\<close> is a CUPS array created with \<open>compare_printers\<close>. \<open>cupsArrayAdd\<close>
  keeps it sorted by that comparison and puts a new element after the elements that
  compare equal; \<open>cupsArrayRemove\<close> locates the element with the same comparison and
  takes it out (the first one, where several compare equal). \<open>cupsArrayFirst\<close> and
  \<open>cupsArrayNext\<close> walk the list front to back. A \<open>NULL\<close> array is the empty list.
\<close>

fun cupsArrayAdd :: "pappl_printer \<Rightarrow> pappl_printer list \<Rightarrow> pappl_printer list" where
  "cupsArrayAdd e [] = [e]"
| "cupsArrayAdd e (x # xs) =
     (if compare_printers e x < 0 then e # x # xs else x # cupsArrayAdd e xs)"

fun cupsArrayRemove :: "pappl_printer \<Rightarrow> pappl_printer list \<Rightarrow> pappl_printer list" where
  "cupsArrayRemove e [] = []"
| "cupsArrayRemove e (x # xs) =
     (if compare_printers e x = 0 then xs else x # cupsArrayRemove e xs)"

section \<open>papplPrinterCreate\<close>

subsection \<open>Spool size\<close>

text \<open>
  \<open>(double)spoolinfo.f_bsize * spoolinfo.f_blocks / 1024\<close> is computed in IEEE double
  precision. \<open>round_double n\<close> is the double nearest to the natural number \<open>n\<close>
  (53 significant bits, ties to even); the conversion of each operand and the product
  round this way, and the division by 1024, a power of two, is exact.
\<close>

definition round_double :: "nat \<Rightarrow> nat" where
  "round_double n =
     (if n < 2 ^ 53 then n
      else let e = floorlog 2 n - 53;
               q = n div 2 ^ e;
               r = n mod 2 ^ e;
               half = 2 ^ (e - 1)
           in if r < half \<or> (r = half \<and> even q) then q * 2 ^ e else (q + 1) * 2 ^ e)"

definition spoolsize :: "statfs_info \<Rightarrow> real" where
  "spoolsize info =
     real (round_double (round_double (f_bsize info) * round_double (f_blocks info))) / 1024"

definition k_supported :: "statfs_info option \<Rightarrow> int" where
  "k_supported st =
     (case st of
        None \<Rightarrow> INT_MAX
      | Some info \<Rightarrow>
          if spoolsize info > real_of_int INT_MAX then INT_MAX
          else \<lfloor>spoolsize info\<rfloor>)"

subsection \<open>Document formats\<close>

text \<open>
  The list is assembled from \<open>printer->driver_data.format\<close> and the image libraries
  the build has. The printer has just come from \<open>calloc\<close> and the call that would
  create the driver is commented out, so the field read there is the zeroed one.
\<close>

definition calloc_driver_data :: pappl_driver_data where
  "calloc_driver_data = \<lparr>format = None\<rparr>"

definition document_formats :: "build_config \<Rightarrow> string option \<Rightarrow> string list" where
  "document_formats b fmt =
     [''application/octet-stream'']
     @ (case fmt of
          None \<Rightarrow> []
        | Some f \<Rightarrow> if strcmp f ''application/octet-stream'' \<noteq> 0 then [f] else [])
     @ (if have_libjpeg b then [''image/jpeg''] else [])
     @ (if have_libpng b then [''image/png''] else [])
     @ [''image/pwg-raster'', ''image/urf'']"

subsection \<open>Capability attributes\<close>

text \<open>
  The attributes \<open>papplPrinterCreate\<close> adds to \<open>printer->attrs\<close>, in the order of the
  \<open>ippAdd...\<close> calls. Only the printer name, the UUID, the format list and the spool
  size vary.
\<close>

definition printer_attrs :: "string \<Rightarrow> string \<Rightarrow> string list \<Rightarrow> int \<Rightarrow> ipp_t" where
  "printer_attrs printer_name uuid formats k =
   [ (''charset-configured'', IppString ''utf-8''),
     (''charset-supported'', IppStrings [''us-ascii'', ''utf-8'']),
     (''compression-supported'', IppStrings [''deflate'', ''gzip'', ''none'']),
     (''copies-default'', IppInteger 1),
     (''copies-supported'', IppRange 1 999),
     (''document-format-default'', IppString ''application/octet-stream''),
     (''document-format-supported'', IppStrings formats),
     (''generated-natural-language-supported'', IppString ''en''),
     (''identify-actions-default'', IppString ''sound''),
     (''identify-actions-supported'', IppStrings [''display'', ''sound'']),
     (''ipp-features-supported'', IppStrings [''ipp-everywhere'']),
     (''ipp-versions-supported'', IppStrings [''1.1'', ''2.0'']),
     (''job-creation-attributes-supported'',
        IppStrings [''copies'', ''document-format'', ''document-name'',
          ''ipp-attribute-fidelity'', ''job-name'', ''job-priority'', ''media'', ''media-col'',
          ''multiple-document-handling'', ''orientation-requested'', ''print-color-mode'',
          ''print-content-optimize'', ''print-darkness'', ''print-quality'', ''print-speed'',
          ''printer-resolution'']),
     (''job-ids-supported'', IppBoolean True),
     (''job-k-octets-supported'', IppRange 0 k),
     (''job-priority-default'', IppInteger 50),
     (''job-priority-supported'', IppInteger 1),
     (''job-sheets-default'', IppString ''none''),
     (''job-sheets-supported'', IppString ''none''),
     (''media-col-supported'',
        IppStrings [''media-bottom-margin'', ''media-left-margin'', ''media-right-margin'',
          ''media-size'', ''media-size-name'', ''media-source'', ''media-top-margin'',
          ''media-top-offset'', ''media-tracking'', ''media-type'']),
     (''multiple-document-handling-supported'',
        IppStrings [''separate-documents-uncollated-copies'',
          ''separate-documents-collated-copies'']),
     (''multiple-document-jobs-supported'', IppBoolean False),
     (''multiple-operation-time-out'', IppInteger 60),
     (''multiple-operation-time-out-action'', IppString ''abort-job''),
     (''natural-language-configured'', IppString ''en''),
     (''operations-supported'',
        IppEnums [IPP_OP_PRINT_JOB, IPP_OP_VALIDATE_JOB, IPP_OP_CREATE_JOB,
          IPP_OP_SEND_DOCUMENT, IPP_OP_CANCEL_JOB, IPP_OP_GET_JOB_ATTRIBUTES, IPP_OP_GET_JOBS,
          IPP_OP_GET_PRINTER_ATTRIBUTES, IPP_OP_SET_PRINTER_ATTRIBUTES, IPP_OP_CANCEL_MY_JOBS,
          IPP_OP_CLOSE_JOB, IPP_OP_IDENTIFY_PRINTER]),
     (''orientation-requested-default'', IppEnum IPP_ORIENT_NONE),
     (''orientation-requested-supported'',
        IppEnums [IPP_ORIENT_PORTRAIT, IPP_ORIENT_LANDSCAPE, IPP_ORIENT_REVERSE_LANDSCAPE,
          IPP_ORIENT_REVERSE_PORTRAIT, IPP_ORIENT_NONE]),
     (''pdl-override-supported'', IppString ''attempted''),
     (''print-color-mode-default'', IppString ''monochrome''),
     (''print-color-mode-supported'', IppStrings [''bi-level'', ''monochrome'']),
     (''print-content-optimize-default'', IppString ''auto''),
     (''print-content-optimize-supported'',
        IppStrings [''auto'', ''graphic'', ''photo'', ''text-and-graphic'', ''text'']),
     (''print-quality-default'', IppEnum IPP_QUALITY_NORMAL),
     (''print-quality-supported'',
        IppEnums [IPP_QUALITY_DRAFT, IPP_QUALITY_NORMAL, IPP_QUALITY_HIGH]),
     (''printer-get-attributes-supported'', IppString ''document-format''),
     (''printer-info'', IppString printer_name),
     (''printer-kind'', IppStrings [''labels'', ''receipt'']),
     (''printer-name'', IppString printer_name),
     (''printer-settable-attributes'',
        IppStrings [''copies-default'', ''document-format-default'', ''label-mode-configured'',
          ''label-tear-off-configured'', ''media-col-default'', ''media-col-ready'',
          ''media-default'', ''media-ready'', ''multiple-document-handling-default'',
          ''orientation-requested-default'', ''print-color-mode-default'',
          ''print-content-optimize-default'', ''print-darkness-default'',
          ''print-quality-default'', ''print-speed-default'', ''printer-darkness-configured'',
          ''printer-geo-location'', ''printer-location'', ''printer-organization'',
          ''printer-organizational-unit'', ''printer-resolution-default'']),
     (''printer-strings-languages-supported'', IppStrings [''de'', ''en'', ''es'', ''fr'', ''it'']),
     (''printer-uuid'', IppString uuid),
     (''uri-authentication-supported'', IppStrings [''none'', ''basic'']),
     (''uri-security-supported'', IppStrings [''none'', ''tls'']),
     (''which-jobs-supported'', IppStrings [''completed'', ''not-completed'', ''all'']) ]"

text \<open>\<open>ippFindAttribute\<close>: the first attribute of that name.\<close>

definition ippFindAttribute :: "ipp_t \<Rightarrow> string \<Rightarrow> ipp_value option" where
  "ippFindAttribute ipp n = map_of ipp n"

subsection \<open>Creation and registration\<close>

text \<open>
  \<open>snprintf(resource, sizeof(resource), "/ipp/print/%s", printer_name)\<close> writes at most
  1023 bytes into the 1024-byte buffer.
\<close>

definition make_resource :: "string \<Rightarrow> string" where
  "make_resource printer_name = take 1023 (''/ipp/print/'' @ printer_name)"

text \<open>
  The printer as it is just before it is added to the system: every field the source
  assigns, the others as \<open>calloc\<close> left them.
\<close>

definition init_printer ::
  "build_config \<Rightarrow> create_env \<Rightarrow> string \<Rightarrow> string \<Rightarrow> string \<Rightarrow> pappl_printer" where
  "init_printer b env printer_name drv uri =
     (let res = make_resource printer_name;
          uuid = made_uuid env;
          k = k_supported (statfs_result env);
          dd = calloc_driver_data;
          formats = document_formats b (format dd)
      in \<lparr> printer_id = 0,
           name = printer_name,
           dns_sd_name = printer_name,
           resource = res,
           resourcelen = length res,
           device_uri = uri,
           driver_name = drv,
           driver_data = dd,
           attrs = printer_attrs printer_name uuid formats k,
           start_time = now env,
           config_time = now env,
           state = IPP_PSTATE_IDLE,
           state_reasons = 0,
           state_time = now env,
           all_jobs = [],
           active_jobs = [],
           completed_jobs = [],
           next_job_id = 1 \<rparr>)"

text \<open>
  The part of \<open>papplPrinterCreate\<close> that runs with the system's write lock held and the
  DNS-SD registration after it: the printer, with its id, goes into the collection and
  becomes the default printer if there is none.
\<close>

definition add_to_system ::
  "pappl_printer \<Rightarrow> pappl_system \<Rightarrow> pappl_printer option \<times> pappl_system \<times> action list" where
  "add_to_system p sys =
     (let sys1 = sys\<lparr>printers := cupsArrayAdd p (printers sys)\<rparr>;
          sys2 = (if default_printer_id sys1 = 0
                  then sys1\<lparr>default_printer_id := printer_id p\<rparr> else sys1)
      in (Some p, sys2,
          if subtypes sys2 \<noteq> None then [RegisterDNSSD (name p)] else []))"

definition papplPrinterCreate ::
  "build_config \<Rightarrow> create_env \<Rightarrow> pappl_system \<Rightarrow> int \<Rightarrow> string \<Rightarrow> string \<Rightarrow> string
     \<Rightarrow> fault + (pappl_printer option \<times> pappl_system \<times> action list)" where
  "papplPrinterCreate b env sys pid printer_name drv uri =
     (if \<not> alloc_ok env
      then Inr (None, sys,
             [Log PAPPL_LOGLEVEL_ERROR
                (''Unable to allocate memory for printer: '' @ strerror_errno env)])
      else
        let p = init_printer b env printer_name drv uri
        in if pid \<noteq> 0 then Inr (add_to_system (p\<lparr>printer_id := pid\<rparr>) sys)
           else if next_printer_id sys = INT_MAX then Inl SignedOverflow
           else Inr (add_to_system (p\<lparr>printer_id := next_printer_id sys\<rparr>)
                       (sys\<lparr>next_printer_id := next_printer_id sys + 1\<rparr>)))"

section \<open>papplPrinterDelete\<close>

text \<open>
  The function removes the printer from the system's array under the write lock. The
  array then hands the element to its free callback, \<open>free_printer\<close>; the model keeps
  the system.
\<close>

definition papplPrinterDelete :: "pappl_system \<Rightarrow> pappl_printer \<Rightarrow> pappl_system" where
  "papplPrinterDelete sys p = sys\<lparr>printers := cupsArrayRemove p (printers sys)\<rparr>"

section \<open>papplSystemFindPrinter\<close>

text \<open>
  The lookup runs under the read lock and changes nothing in the system; its
  \<open>papplLog\<close> calls at debug level are left out.
\<close>

text \<open>
  The test of the loop body on the resource:
  \<open>!strncmp(printer->resource, resource, printer->resourcelen) &&
   (!resource[printer->resourcelen] || resource[printer->resourcelen] == '/')\<close>.
\<close>

definition resource_matches :: "pappl_printer \<Rightarrow> string \<Rightarrow> bool" where
  "resource_matches p path =
     (strncmp (resource p) path (resourcelen p) = 0 \<and>
      (char_at path (resourcelen p) = CHR 0x00 \<or> char_at path (resourcelen p) = CHR ''/''))"

text \<open>
  The test before the loop:
  \<open>!strcmp(resource, "/ipp/print") ||
   (!strncmp(resource, "/ipp/print/", 11) && isdigit(resource[11] & 255))\<close>.
\<close>

definition is_default_path :: "string \<Rightarrow> bool" where
  "is_default_path path =
     (strcmp path ''/ipp/print'' = 0 \<or>
      (strncmp path ''/ipp/print/'' 11 = 0 \<and> isdigit (char_at path 11)))"

text \<open>The resource and printer id the loop runs with.\<close>

definition find_target :: "pappl_system \<Rightarrow> string option \<Rightarrow> int \<Rightarrow> string option \<times> int" where
  "find_target sys res pid =
     (case res of
        None \<Rightarrow> (None, pid)
      | Some path \<Rightarrow>
          if is_default_path path then (None, default_printer_id sys) else (Some path, pid))"

fun find_scan :: "pappl_printer list \<Rightarrow> string option \<Rightarrow> int \<Rightarrow> pappl_printer option" where
  "find_scan [] res pid = None"
| "find_scan (p # ps) res pid =
     (if (case res of None \<Rightarrow> False | Some path \<Rightarrow> resource_matches p path) then Some p
      else if printer_id p = pid then Some p
      else find_scan ps res pid)"

definition papplSystemFindPrinter ::
  "pappl_system \<Rightarrow> string option \<Rightarrow> int \<Rightarrow> pappl_printer option" where
  "papplSystemFindPrinter sys res pid =
     (case find_target sys res pid of (res', pid') \<Rightarrow> find_scan (printers sys) res' pid')"

section \<open>Sequences of calls on one system\<close>

datatype call =
    Create create_env int string string string
  | Delete pappl_printer

text \<open>
  \<open>run_calls\<close> performs the calls in order on one system and returns the printers the
  \<open>Create\<close> calls returned, in call order, with the final system. It stops at a fault.
\<close>

fun run_calls ::
  "build_config \<Rightarrow> call list \<Rightarrow> pappl_system \<Rightarrow> fault + (pappl_printer list \<times> pappl_system)" where
  "run_calls b [] sys = Inr ([], sys)"
| "run_calls b (Create env pid n d u # cs) sys =
     (case papplPrinterCreate b env sys pid n d u of
        Inl f \<Rightarrow> Inl f
      | Inr (r, sys', acts) \<Rightarrow>
          (case run_calls b cs sys' of
             Inl f \<Rightarrow> Inl f
           | Inr (ps, sys'') \<Rightarrow> Inr ((case r of None \<Rightarrow> [] | Some p \<Rightarrow> [p]) @ ps, sys'')))"
| "run_calls b (Delete p # cs) sys = run_calls b cs (papplPrinterDelete sys p)"

fun passes_zero_id :: "call \<Rightarrow> bool" where
  "passes_zero_id (Create env pid n d u) = (pid = 0)"
| "passes_zero_id (Delete p) = True"

fun creates_with_zero_id :: "call \<Rightarrow> bool" where
  "creates_with_zero_id (Create env pid n d u) = (pid = 0)"
| "creates_with_zero_id (Delete p) = False"

section \<open>_papplGetRand\<close>

text \<open>
  What the platform answers during one call: the value of \<open>arc4random\<close>; the buffer
  \<open>getrandom\<close> filled when it returned the full length, else \<open>None\<close>; the buffer
  \<open>gnutls_rnd\<close> filled when it returned 0, else \<open>None\<close>; the clock; and the value of
  \<open>random()\<close>.
\<close>

record rand_env =
  arc4random_value :: "32 word"
  getrandom_result :: "32 word option"
  gnutls_rnd_result :: "32 word option"
  time_value :: int
  random_value :: nat

text \<open>
  The function's static \<open>first_time\<close> flag, and the seeds \<open>srandom\<close> has been called
  with so far, oldest first. \<open>srandom\<close> takes an \<open>unsigned\<close>, so the value of
  \<open>time(NULL)\<close> reaches it reduced modulo \<open>2^32\<close>.
\<close>

record rand_state =
  first_time :: bool
  srandom_calls :: "32 word list"

definition rand_init :: rand_state where
  "rand_init = \<lparr> first_time = True, srandom_calls = [] \<rparr>"

text \<open>
  The platform source compiled in, if any, and its answer:
  \<open>#ifdef HAVE_GETRANDOM ... #elif defined(HAVE_GNUTLS_RND) ... #endif\<close>.
\<close>

definition platform_random :: "build_config \<Rightarrow> rand_env \<Rightarrow> 32 word option" where
  "platform_random b env =
     (if have_getrandom b then getrandom_result env
      else if have_gnutls_rnd b then gnutls_rnd_result env
      else None)"

definition papplGetRand :: "build_config \<Rightarrow> rand_env \<Rightarrow> rand_state \<Rightarrow> 32 word \<times> rand_state" where
  "papplGetRand b env st =
     (if have_arc4random b then (arc4random_value env, st)
      else case platform_random b env of
             Some buffer \<Rightarrow> (buffer, st)
           | None \<Rightarrow>
               (word_of_nat (random_value env),
                if first_time st
                then st\<lparr> first_time := False,
                         srandom_calls := srandom_calls st @ [word_of_int (time_value env)] \<rparr>
                else st))"

definition reaches_fallback :: "build_config \<Rightarrow> rand_env \<Rightarrow> bool" where
  "reaches_fallback b env = (\<not> have_arc4random b \<and> platform_random b env = None)"

fun rand_calls :: "build_config \<Rightarrow> rand_env list \<Rightarrow> rand_state \<Rightarrow> 32 word list \<times> rand_state" where
  "rand_calls b [] st = ([], st)"
| "rand_calls b (env # envs) st =
     (case papplGetRand b env st of
        (v, st') \<Rightarrow> (case rand_calls b envs st' of (vs, st'') \<Rightarrow> (v # vs, st'')))"

text \<open>
  The function takes no lock, and the callers of the printer object run in several
  threads. \<open>rand_step\<close> is one call cut at its accesses to the static flag: the entry up
  to the test \<open>if (first_time)\<close>, the call \<open>srandom(time(NULL))\<close>, the assignment
  \<open>first_time = 0\<close>, and the return of \<open>random()\<close>. \<open>rand_schedule\<close> runs the calls
  of several threads, one step of the named thread at a time.
\<close>

datatype rand_pc = Entry | Seeding | Clearing | Drawing | Returned "32 word"

definition rand_step ::
  "build_config \<Rightarrow> rand_env \<Rightarrow> rand_pc \<Rightarrow> rand_state \<Rightarrow> rand_pc \<times> rand_state" where
  "rand_step b env pc st =
     (case pc of
        Entry \<Rightarrow>
          if have_arc4random b then (Returned (arc4random_value env), st)
          else (case platform_random b env of
                  Some buffer \<Rightarrow> (Returned buffer, st)
                | None \<Rightarrow> if first_time st then (Seeding, st) else (Drawing, st))
      | Seeding \<Rightarrow>
          (Clearing, st\<lparr> srandom_calls := srandom_calls st @ [word_of_int (time_value env)] \<rparr>)
      | Clearing \<Rightarrow> (Drawing, st\<lparr> first_time := False \<rparr>)
      | Drawing \<Rightarrow> (Returned (word_of_nat (random_value env)), st)
      | Returned v \<Rightarrow> (Returned v, st))"

fun rand_schedule ::
  "build_config \<Rightarrow> nat list \<Rightarrow> (rand_env \<times> rand_pc) list \<Rightarrow> rand_state
     \<Rightarrow> (rand_env \<times> rand_pc) list \<times> rand_state" where
  "rand_schedule b [] ts st = (ts, st)"
| "rand_schedule b (i # sched) ts st =
     (if i < length ts
      then (case rand_step b (fst (ts ! i)) (snd (ts ! i)) st of
              (pc', st') \<Rightarrow> rand_schedule b sched (ts[i := (fst (ts ! i), pc')]) st')
      else rand_schedule b sched ts st)"

section \<open>Example inputs\<close>

text \<open>
  A build with \<open>getrandom\<close> and no image library, a spool file system of 125000 blocks
  of 4096 bytes (500000 KiB), and a system as it is before the first printer is created:
  no printer, no default printer (\<open>default_printer_id\<close> is 0, the value
  \<open>papplPrinterCreate\<close> tests for), the id counter at 1, no DNS-SD subtypes.
\<close>

definition ex_build :: build_config where
  "ex_build = \<lparr> have_libjpeg = False, have_libpng = False, have_arc4random = False,
                have_getrandom = True, have_gnutls_rnd = False \<rparr>"

definition ex_statfs :: statfs_info where
  "ex_statfs = \<lparr> f_bsize = 4096, f_blocks = 125000 \<rparr>"

text \<open>A file system of 4 TiB, and a build with both image libraries.\<close>

definition ex_statfs_4tib :: statfs_info where
  "ex_statfs_4tib = \<lparr> f_bsize = 4096, f_blocks = 1073741824 \<rparr>"

definition ex_build_images :: build_config where
  "ex_build_images = \<lparr> have_libjpeg = True, have_libpng = True, have_arc4random = False,
                       have_getrandom = True, have_gnutls_rnd = False \<rparr>"

definition ex_env :: create_env where
  "ex_env = \<lparr> alloc_ok = True, strerror_errno = ''Cannot allocate memory'',
              statfs_result = Some ex_statfs, now = 1577836800,
              made_uuid = ''urn:uuid:00000000-0000-0000-0000-000000000000'' \<rparr>"

definition ex_env_nomem :: create_env where
  "ex_env_nomem = ex_env\<lparr> alloc_ok := False \<rparr>"

definition ex_system :: pappl_system where
  "ex_system = \<lparr> directory = ''/var/spool/pappl'', subtypes = None, printers = [],
                 next_printer_id = 1, default_printer_id = 0 \<rparr>"

text \<open>The printer a call with name \<open>n\<close> returns when it is given the id \<open>i\<close>.\<close>

definition ex_printer :: "string \<Rightarrow> int \<Rightarrow> pappl_printer" where
  "ex_printer n i = (init_printer ex_build ex_env n ''pwg_2inch-203dpi-black_1'' ''file:///dev/null'')
                      \<lparr> printer_id := i \<rparr>"

definition ex_create :: "string \<Rightarrow> call" where
  "ex_create n = Create ex_env 0 n ''pwg_2inch-203dpi-black_1'' ''file:///dev/null''"

text \<open>The system after the call that creates \<open>foo\<close>.\<close>

definition ex_system_foo :: pappl_system where
  "ex_system_foo =
     ex_system\<lparr> printers := [ex_printer ''foo'' 1], next_printer_id := 2,
                 default_printer_id := 1 \<rparr>"

text \<open>The system after the calls that create \<open>foo\<close> and then \<open>4inch\<close>, and after \<open>a\<close> and then \<open>ab\<close>.\<close>

definition ex_system_foo_4inch :: pappl_system where
  "ex_system_foo_4inch =
     ex_system\<lparr> printers := [ex_printer ''4inch'' 2, ex_printer ''foo'' 1],
                 next_printer_id := 3, default_printer_id := 1 \<rparr>"

definition ex_system_a_ab :: pappl_system where
  "ex_system_a_ab =
     ex_system\<lparr> printers := [ex_printer ''a'' 1, ex_printer ''ab'' 2],
                 next_printer_id := 3, default_printer_id := 1 \<rparr>"

text \<open>
  A call that names a driver \<open>acme\<close>, in the build with both image libraries: the printer
  it returns and the system it leaves.
\<close>

definition ex_acme_printer :: pappl_printer where
  "ex_acme_printer =
     (init_printer ex_build_images ex_env ''foo'' ''acme'' ''file:///dev/null'')
       \<lparr> printer_id := 1 \<rparr>"

definition ex_system_acme :: pappl_system where
  "ex_system_acme =
     ex_system\<lparr> printers := [ex_acme_printer], next_printer_id := 2,
                 default_printer_id := 1 \<rparr>"

definition ex_rand_env :: "32 word option \<Rightarrow> int \<Rightarrow> nat \<Rightarrow> rand_env" where
  "ex_rand_env g t r =
     \<lparr> arc4random_value = 0, getrandom_result = g, gnutls_rnd_result = None,
       time_value = t, random_value = r \<rparr>"

section \<open>Facts about the C string functions\<close>

lemma strcmp_eq_0_iff: "strcmp a b = 0 \<longleftrightarrow> a = b"
  by (induction a b rule: strcmp.induct) auto


section \<open>The spool size\<close>

lemma round_double_small: "n < 2 ^ 53 \<Longrightarrow> round_double n = n"
  by (simp add: round_double_def)

lemma round_double_big:
  assumes "2 ^ 53 \<le> n"
  shows "2 ^ 53 \<le> round_double n"
proof -
  define L where "L = floorlog 2 n"
  define e where "e = L - 53"
  define q where "q = n div 2 ^ e"
  have npos: "0 < n" using assms by (simp add: order_less_le_trans)
  have b1: "2 ^ (L - 1) \<le> n" and b2: "n < 2 ^ L"
    using floorlog_bounds [of n 2] npos by (simp_all add: L_def)
  have "(2::nat) ^ 53 < 2 ^ L" using assms b2 by (rule le_less_trans)
  then have "53 < L" by (rule power_less_imp_less_exp [rotated]) simp
  then have L54: "54 \<le> L" by simp
  then have e1: "1 \<le> e" and Le: "L - 1 = 52 + e" by (simp_all add: e_def)
  have "(2::nat) ^ 52 * 2 ^ e \<le> n" using b1 Le by (simp add: power_add)
  then have "2 ^ 52 \<le> q"
    unfolding q_def by (simp add: less_eq_div_iff_mult_less_eq)
  moreover have "(2::nat) \<le> 2 ^ e"
    using e1 power_increasing [of 1 e "2::nat"] by simp
  ultimately have "2 ^ 52 * 2 \<le> q * 2 ^ e" by (rule mult_le_mono)
  then have low: "2 ^ 53 \<le> q * 2 ^ e" by simp
  have "q * 2 ^ e \<le> (q + 1) * 2 ^ e" by simp
  with low have low2: "2 ^ 53 \<le> (q + 1) * 2 ^ e" by (rule order_trans)
  have "\<not> n < 2 ^ 53" using assms by simp
  then show ?thesis
    using low low2 by (simp add: round_double_def Let_def L_def [symmetric] e_def [symmetric] q_def [symmetric])
qed

lemma round_double_pos: "0 < n \<Longrightarrow> 0 < round_double n"
  using round_double_small [of n] round_double_big [of n]
  by (cases "n < 2 ^ 53") (auto simp: not_less intro: less_le_trans [of 0 "2 ^ 53"])

lemma round_double_product_small:
  assumes "a * b < 2 ^ 53"
  shows "round_double (round_double a * round_double b) = a * b"
proof (cases "a = 0 \<or> b = 0")
  case True
  then show ?thesis by (auto simp: round_double_small)
next
  case False
  then have "0 < a" "0 < b" by simp_all
  then have "a * 1 \<le> a * b" "1 * b \<le> a * b" by (simp_all add: Suc_leI)
  then have le: "a \<le> a * b" "b \<le> a * b" by simp_all
  have "a < 2 ^ 53" using le(1) assms by (rule le_less_trans)
  moreover have "b < 2 ^ 53" using le(2) assms by (rule le_less_trans)
  ultimately have "a < 2 ^ 53" "b < 2 ^ 53" by blast+
  with assms show ?thesis by (simp add: round_double_small)
qed

lemma round_double_product_big:
  assumes "2 ^ 53 \<le> a * b"
  shows "2 ^ 53 \<le> round_double (round_double a * round_double b)"
proof -
  have pos: "0 < a" "0 < b" using assms by (auto intro: Nat.gr0I)
  have "2 ^ 53 \<le> round_double a * round_double b"
  proof (cases "a < 2 ^ 53 \<and> b < 2 ^ 53")
    case True
    with assms show ?thesis by (simp add: round_double_small)
  next
    case False
    then consider "2 ^ 53 \<le> a" | "2 ^ 53 \<le> b" by (auto simp: not_less)
    then show ?thesis
    proof cases
      case 1
      then have "2 ^ 53 * 1 \<le> round_double a * round_double b"
        using round_double_big [of a] round_double_pos [OF pos(2)]
        by (intro mult_le_mono) simp_all
      then show ?thesis by simp
    next
      case 2
      then have "1 * 2 ^ 53 \<le> round_double a * round_double b"
        using round_double_big [of b] round_double_pos [OF pos(1)]
        by (intro mult_le_mono) simp_all
      then show ?thesis by simp
    qed
  qed
  then show ?thesis by (rule round_double_big)
qed

lemma k_supported_Some:
  "k_supported (Some info) =
     (if 2 ^ 31 \<le> real (f_bsize info * f_blocks info) / 1024 then INT_MAX
      else \<lfloor>real (f_bsize info * f_blocks info) / 1024\<rfloor>)"
proof (cases "f_bsize info * f_blocks info < 2 ^ 53")
  case True
  then have sp: "spoolsize info = real (f_bsize info * f_blocks info) / 1024"
    by (simp add: spoolsize_def round_double_product_small)
  show ?thesis
  proof (cases "2 ^ 31 \<le> real (f_bsize info * f_blocks info) / 1024")
    case True
    then show ?thesis by (simp add: k_supported_def sp INT_MAX_def)
  next
    case False
    show ?thesis
    proof (cases "real (f_bsize info * f_blocks info) / 1024 > 2147483647")
      case True
      with False have "\<lfloor>real (f_bsize info * f_blocks info) / 1024\<rfloor> = 2147483647"
        by (intro floor_unique) simp_all
      with True False show ?thesis by (simp add: k_supported_def sp INT_MAX_def)
    next
      case False
      then show ?thesis using \<open>\<not> 2 ^ 31 \<le> _\<close> by (simp add: k_supported_def sp INT_MAX_def)
    qed
  qed
next
  case False
  then have big: "2 ^ 53 \<le> f_bsize info * f_blocks info" by simp
  then have "(2::nat) ^ 53 \<le> round_double (round_double (f_bsize info) * round_double (f_blocks info))"
    by (rule round_double_product_big)
  then have "real (2 ^ 53) \<le> real (round_double (round_double (f_bsize info) * round_double (f_blocks info)))"
    by (simp only: of_nat_le_iff)
  then have 1: "spoolsize info > 2147483647"
    by (simp add: spoolsize_def)
  from big have "real (2 ^ 53) \<le> real (f_bsize info * f_blocks info)"
    by (simp only: of_nat_le_iff)
  then have 2: "2 ^ 31 \<le> real (f_bsize info * f_blocks info) / 1024" by simp
  from 1 2 show ?thesis by (simp add: k_supported_def INT_MAX_def)
qed

lemma attrs_init_printer:
  "attrs (init_printer b env n d u) =
     printer_attrs n (made_uuid env) (document_formats b None) (k_supported (statfs_result env))"
  by (simp add: init_printer_def Let_def calloc_driver_data_def)

lemma papplPrinterCreate_attrs:
  assumes "papplPrinterCreate b env sys pid n d u = Inr (Some p, sys', acts)"
  shows "attrs p = attrs (init_printer b env n d u)"
  using assms
  by (auto simp: papplPrinterCreate_def add_to_system_def Let_def split: if_splits)

lemma find_job_k_octets:
  "ippFindAttribute (printer_attrs n uuid fs k) ''job-k-octets-supported'' = Some (IppRange 0 k)"
  by (simp add: ippFindAttribute_def printer_attrs_def)

lemma papplPrinterCreate_returns_printer:
  assumes "alloc_ok env" and "pid = 0 \<longrightarrow> next_printer_id sys < INT_MAX"
  shows "\<exists>p sys' acts. papplPrinterCreate b env sys pid n d u = Inr (Some p, sys', acts)"
  using assms by (auto simp: papplPrinterCreate_def add_to_system_def Let_def)

text \<open>
  C6. The advertised maximum job size is \<open>INT_MAX = 2^31 - 1\<close> when \<open>statfs\<close> fails or
  when the capacity in kilobytes is at least \<open>2^31\<close>, and the capacity in kilobytes,
  truncated to an integer, otherwise; a file system of 500000 KiB gives exactly 500000.
  A call of \<open>papplPrinterCreate\<close> whose allocation succeeds, and which has an id to give,
  returns a printer, and the \<open>job-k-octets-supported\<close> attribute of the printer a call
  returns is the range from 0 to that value.
\<close>

theorem k_supported_clamped:
  "INT_MAX = 2 ^ 31 - 1
   \<and> k_supported None = INT_MAX
   \<and> k_supported (Some info) =
       (if 2 ^ 31 \<le> real (f_bsize info * f_blocks info) / 1024 then INT_MAX
        else \<lfloor>real (f_bsize info * f_blocks info) / 1024\<rfloor>)
   \<and> (f_bsize info * f_blocks info = 500000 * 1024 \<longrightarrow> k_supported (Some info) = 500000)
   \<and> (alloc_ok env \<and> (pid = 0 \<longrightarrow> next_printer_id sys < INT_MAX) \<longrightarrow>
        (\<exists>q sys1 acts1.
           papplPrinterCreate b env sys pid n d u = Inr (Some q, sys1, acts1)
           \<and> ippFindAttribute (attrs q) ''job-k-octets-supported''
               = Some (IppRange 0 (k_supported (statfs_result env)))))
   \<and> (papplPrinterCreate b env sys pid n d u = Inr (Some p, sys', acts) \<longrightarrow>
        ippFindAttribute (attrs p) ''job-k-octets-supported''
          = Some (IppRange 0 (k_supported (statfs_result env))))"
proof -
  have attr: "ippFindAttribute (attrs q) ''job-k-octets-supported''
          = Some (IppRange 0 (k_supported (statfs_result env)))"
    if "papplPrinterCreate b env sys pid n d u = Inr (Some q, sys1, acts1)" for q sys1 acts1
  proof -
    from that have "attrs q = attrs (init_printer b env n d u)"
      by (rule papplPrinterCreate_attrs)
    then show ?thesis by (simp add: attrs_init_printer find_job_k_octets)
  qed
  have 1: "INT_MAX = 2 ^ 31 - 1" by (simp add: INT_MAX_def)
  have 2: "k_supported None = INT_MAX" by (simp add: k_supported_def)
  have 3: "k_supported (Some info) =
       (if 2 ^ 31 \<le> real (f_bsize info * f_blocks info) / 1024 then INT_MAX
        else \<lfloor>real (f_bsize info * f_blocks info) / 1024\<rfloor>)"
    by (rule k_supported_Some)
  have 4: "f_bsize info * f_blocks info = 500000 * 1024 \<longrightarrow> k_supported (Some info) = 500000"
    by (simp add: k_supported_Some)
  have 5: "alloc_ok env \<and> (pid = 0 \<longrightarrow> next_printer_id sys < INT_MAX) \<longrightarrow>
        (\<exists>q sys1 acts1.
           papplPrinterCreate b env sys pid n d u = Inr (Some q, sys1, acts1)
           \<and> ippFindAttribute (attrs q) ''job-k-octets-supported''
               = Some (IppRange 0 (k_supported (statfs_result env))))"
  proof
    assume "alloc_ok env \<and> (pid = 0 \<longrightarrow> next_printer_id sys < INT_MAX)"
    then obtain q sys1 acts1 where
      c: "papplPrinterCreate b env sys pid n d u = Inr (Some q, sys1, acts1)"
      using papplPrinterCreate_returns_printer [of env pid sys b n d u] by blast
    with attr [OF c] show "\<exists>q sys1 acts1.
           papplPrinterCreate b env sys pid n d u = Inr (Some q, sys1, acts1)
           \<and> ippFindAttribute (attrs q) ''job-k-octets-supported''
               = Some (IppRange 0 (k_supported (statfs_result env)))" by blast
  qed
  have 6: "papplPrinterCreate b env sys pid n d u = Inr (Some p, sys', acts) \<longrightarrow>
        ippFindAttribute (attrs p) ''job-k-octets-supported''
          = Some (IppRange 0 (k_supported (statfs_result env)))"
    using attr by blast
  from 1 2 3 4 5 6 show ?thesis by (intro conjI)
qed

lemma ex_create_foo:
  "papplPrinterCreate ex_build ex_env ex_system 0 ''foo'' ''pwg_2inch-203dpi-black_1''
     ''file:///dev/null''
   = Inr (Some (ex_printer ''foo'' 1), ex_system_foo, [])"
  by (simp add: papplPrinterCreate_def ex_env_def ex_system_def ex_system_foo_def
      INT_MAX_def add_to_system_def Let_def ex_printer_def)

theorem k_supported_clamped_witness:
  "f_bsize ex_statfs * f_blocks ex_statfs = 500000 * 1024
   \<and> k_supported (Some ex_statfs) = 500000
   \<and> k_supported (Some ex_statfs_4tib) = 2147483647
   \<and> k_supported None = 2147483647
   \<and> alloc_ok ex_env \<and> next_printer_id ex_system < INT_MAX
   \<and> statfs_result ex_env = Some ex_statfs
   \<and> (\<exists>q sys1 acts1.
         papplPrinterCreate ex_build ex_env ex_system 0 ''foo'' ''pwg_2inch-203dpi-black_1''
           ''file:///dev/null'' = Inr (Some q, sys1, acts1)
         \<and> ippFindAttribute (attrs q) ''job-k-octets-supported'' = Some (IppRange 0 500000))
   \<and> papplPrinterCreate ex_build ex_env ex_system 0 ''foo'' ''pwg_2inch-203dpi-black_1''
         ''file:///dev/null'' = Inr (Some (ex_printer ''foo'' 1), ex_system_foo, [])
   \<and> ippFindAttribute (attrs (ex_printer ''foo'' 1)) ''job-k-octets-supported''
       = Some (IppRange 0 500000)"
proof -
  have size: "f_bsize ex_statfs * f_blocks ex_statfs = 500000 * 1024"
    by (simp add: ex_statfs_def)
  have k: "k_supported (Some ex_statfs) = 500000"
    using k_supported_clamped [of ex_statfs] size by simp
  have big: "k_supported (Some ex_statfs_4tib) = 2147483647"
    using k_supported_clamped [of ex_statfs_4tib] by (simp add: ex_statfs_4tib_def)
  have none: "k_supported None = 2147483647"
    using k_supported_clamped [of ex_statfs] by simp
  have ok: "alloc_ok ex_env" "next_printer_id ex_system < INT_MAX"
    "statfs_result ex_env = Some ex_statfs"
    by (simp_all add: ex_env_def ex_system_def INT_MAX_def)
  note t = k_supported_clamped [where info = ex_statfs and b = ex_build and env = ex_env
      and sys = ex_system and pid = 0 and n = "''foo''" and d = "''pwg_2inch-203dpi-black_1''"
      and u = "''file:///dev/null''" and p = "ex_printer ''foo'' 1" and sys' = ex_system_foo
      and acts = "[]"]
  from t ok(1,2) have ex: "\<exists>q sys1 acts1.
         papplPrinterCreate ex_build ex_env ex_system 0 ''foo'' ''pwg_2inch-203dpi-black_1''
           ''file:///dev/null'' = Inr (Some q, sys1, acts1)
         \<and> ippFindAttribute (attrs q) ''job-k-octets-supported''
             = Some (IppRange 0 (k_supported (statfs_result ex_env)))"
    by simp
  from t ex_create_foo
  have at: "ippFindAttribute (attrs (ex_printer ''foo'' 1)) ''job-k-octets-supported''
          = Some (IppRange 0 (k_supported (statfs_result ex_env)))"
    by simp
  from ex at show ?thesis
    using size k big none ok ex_create_foo by (simp add: ok(3))
qed

section \<open>Facts about the collection, the lookup and the creation\<close>

lemma set_cupsArrayAdd: "set (cupsArrayAdd e xs) = insert e (set xs)"
  by (induction xs) auto

lemma length_cupsArrayAdd: "length (cupsArrayAdd e xs) = Suc (length xs)"
  by (induction xs) auto

lemma set_cupsArrayRemove_subset: "set (cupsArrayRemove e xs) \<subseteq> set xs"
  by (induction xs) auto

lemma find_scan_None_iff:
  "find_scan ps res pid = None \<longleftrightarrow>
     (\<forall>p\<in>set ps. \<not> (case res of None \<Rightarrow> False | Some path \<Rightarrow> resource_matches p path)
                 \<and> printer_id p \<noteq> pid)"
  by (induction ps) auto


lemma find_scan_by_id_unique:
  assumes "p \<in> set ps" and "\<forall>q\<in>set ps. printer_id q = printer_id p \<longrightarrow> q = p"
  shows "find_scan ps None (printer_id p) = Some p"
  using assms by (induction ps) auto

lemma is_default_path_root: "is_default_path ''/ipp/print''"
  by (simp add: is_default_path_def)

lemma is_default_path_numeric:
  assumes "ds \<noteq> []" and "\<forall>c\<in>set ds. isdigit c"
  shows "is_default_path (''/ipp/print/'' @ ds)"
proof -
  from assms obtain c cs where ds: "ds = c # cs" and c: "isdigit c"
    by (cases ds) auto
  show ?thesis
    by (simp add: is_default_path_def strncmp_def char_at_def ds c)
qed

text \<open>What a successful call does, in one statement.\<close>

lemma papplPrinterCreate_Some:
  assumes "papplPrinterCreate b env sys pid n d u = Inr (Some p, sys', acts)"
  shows "alloc_ok env"
    and "p = (init_printer b env n d u)\<lparr>printer_id := (if pid \<noteq> 0 then pid else next_printer_id sys)\<rparr>"
    and "printers sys' = cupsArrayAdd p (printers sys)"
    and "next_printer_id sys' = (if pid \<noteq> 0 then next_printer_id sys else next_printer_id sys + 1)"
    and "default_printer_id sys' =
           (if default_printer_id sys = 0 then printer_id p else default_printer_id sys)"
    and "pid = 0 \<longrightarrow> next_printer_id sys \<noteq> INT_MAX"
  using assms
  by (auto simp: papplPrinterCreate_def add_to_system_def Let_def split: if_splits)

lemma papplPrinterCreate_None:
  assumes "papplPrinterCreate b env sys pid n d u = Inr (None, sys', acts)"
  shows "sys' = sys"
  using assms
  by (auto simp: papplPrinterCreate_def add_to_system_def Let_def split: if_splits)

lemma init_printer_fields:
  "name (init_printer b env n d u) = n"
  "resource (init_printer b env n d u) = make_resource n"
  "resourcelen (init_printer b env n d u) = length (make_resource n)"
  by (simp_all add: init_printer_def Let_def)

lemma ex_resources:
  "resource (ex_printer n i) = make_resource n"
  "resourcelen (ex_printer n i) = length (make_resource n)"
  "name (ex_printer n i) = n"
  "printer_id (ex_printer n i) = i"
  by (simp_all add: ex_printer_def init_printer_fields)

section \<open>Allocation failure\<close>

text \<open>
  C7. When \<open>calloc\<close> fails, \<open>papplPrinterCreate\<close> returns no printer and leaves the
  system as it was: the printer collection, \<open>next_printer_id\<close> and
  \<open>default_printer_id\<close> are unchanged. The only action is the error log; no DNS-SD
  registration takes place.
\<close>

theorem create_alloc_failure:
  assumes "\<not> alloc_ok env"
  shows "papplPrinterCreate b env sys pid n d u =
           Inr (None, sys,
                [Log PAPPL_LOGLEVEL_ERROR
                   (''Unable to allocate memory for printer: '' @ strerror_errno env)])"
  using assms by (simp add: papplPrinterCreate_def)

theorem create_alloc_failure_witness:
  "\<not> alloc_ok ex_env_nomem \<and>
   papplPrinterCreate ex_build ex_env_nomem ex_system 0 ''foo'' ''pwg_2inch-203dpi-black_1''
       ''file:///dev/null'' =
     Inr (None, ex_system,
          [Log PAPPL_LOGLEVEL_ERROR
             ''Unable to allocate memory for printer: Cannot allocate memory''])"
proof -
  have h: "\<not> alloc_ok ex_env_nomem" by (simp add: ex_env_nomem_def)
  from create_alloc_failure [OF h] h show ?thesis
    by (simp add: ex_env_nomem_def ex_env_def)
qed

section \<open>Explicit printer ids\<close>

text \<open>
  C8, as amended. A call with a nonzero printer id whose allocation succeeds always
  registers the printer under that id and leaves \<open>next_printer_id\<close> as it was. The
  id is not compared with the ids already registered: every printer of the collection
  stays, whatever its id, and the new one is added.
\<close>

theorem explicit_id_keeps_counter:
  assumes "pid \<noteq> 0" and "alloc_ok env"
  shows "\<exists>p sys' acts.
           papplPrinterCreate b env sys pid n d u = Inr (Some p, sys', acts)
           \<and> printer_id p = pid
           \<and> next_printer_id sys' = next_printer_id sys
           \<and> set (printers sys') = insert p (set (printers sys))
           \<and> length (printers sys') = length (printers sys) + 1"
  using assms
  by (simp add: papplPrinterCreate_def add_to_system_def Let_def set_cupsArrayAdd
      length_cupsArrayAdd)

text \<open>
  The claim as it was stated says the counter is incremented on this path. On a fresh
  system a call with id 5 leaves it at 1.
\<close>

lemma ex_create_foo5:
  "papplPrinterCreate ex_build ex_env ex_system 5 ''foo'' ''pwg_2inch-203dpi-black_1''
     ''file:///dev/null''
   = Inr (Some (ex_printer ''foo'' 5),
          ex_system\<lparr> printers := [ex_printer ''foo'' 5], default_printer_id := 5 \<rparr>, [])"
  by (simp add: papplPrinterCreate_def ex_env_def ex_system_def
      INT_MAX_def add_to_system_def Let_def ex_printer_def)

theorem explicit_id_counterexample:
  "papplPrinterCreate ex_build ex_env ex_system 5 ''foo'' ''pwg_2inch-203dpi-black_1''
     ''file:///dev/null''
   = Inr (Some (ex_printer ''foo'' 5),
          ex_system\<lparr> printers := [ex_printer ''foo'' 5], default_printer_id := 5 \<rparr>, [])
   \<and> next_printer_id (ex_system\<lparr> printers := [ex_printer ''foo'' 5], default_printer_id := 5 \<rparr>)
       \<noteq> next_printer_id ex_system + 1"
  using ex_create_foo5 by simp

theorem explicit_id_keeps_counter_witness:
  "(5::int) \<noteq> 0 \<and> alloc_ok ex_env \<and>
   (\<exists>p sys' acts.
      papplPrinterCreate ex_build ex_env
        (ex_system\<lparr> printers := [ex_printer ''foo'' 5], default_printer_id := 5 \<rparr>) 5 ''bar''
        ''pwg_2inch-203dpi-black_1'' ''file:///dev/null'' = Inr (Some p, sys', acts)
      \<and> printer_id p = 5
      \<and> next_printer_id sys' = 1
      \<and> set (printers sys') = {p, ex_printer ''foo'' 5})"
proof -
  have h1: "(5::int) \<noteq> 0" by simp
  have h2: "alloc_ok ex_env" by (simp add: ex_env_def)
  have n: "next_printer_id (ex_system\<lparr> printers := [ex_printer ''foo'' 5], default_printer_id := 5 \<rparr>) = 1"
    and ps: "printers (ex_system\<lparr> printers := [ex_printer ''foo'' 5], default_printer_id := 5 \<rparr>)
              = [ex_printer ''foo'' 5]"
    by (simp_all add: ex_system_def)
  from explicit_id_keeps_counter [OF h1 h2, of ex_build
      "ex_system\<lparr> printers := [ex_printer ''foo'' 5], default_printer_id := 5 \<rparr>"
      "''bar''" "''pwg_2inch-203dpi-black_1''" "''file:///dev/null''"]
  obtain p sys' acts where
    "papplPrinterCreate ex_build ex_env
        (ex_system\<lparr> printers := [ex_printer ''foo'' 5], default_printer_id := 5 \<rparr>) 5 ''bar''
        ''pwg_2inch-203dpi-black_1'' ''file:///dev/null'' = Inr (Some p, sys', acts)"
    "printer_id p = 5" "next_printer_id sys' = 1"
    "set (printers sys') = {p, ex_printer ''foo'' 5}"
    unfolding n ps by auto
  with h1 h2 show ?thesis by blast
qed

section \<open>Sequences of calls: the ids\<close>

lemma papplPrinterCreate_ids_nonzero:
  assumes run: "papplPrinterCreate b env sys pid n d u = Inr (r, sys', acts)"
    and nxt: "1 \<le> next_printer_id sys"
    and ids: "\<forall>q\<in>set (printers sys). printer_id q \<noteq> 0"
  shows "1 \<le> next_printer_id sys' \<and> (\<forall>q\<in>set (printers sys'). printer_id q \<noteq> 0)"
proof (cases r)
  case None
  with run have "sys' = sys" by (simp add: papplPrinterCreate_None)
  with nxt ids show ?thesis by simp
next
  case (Some p)
  note c = papplPrinterCreate_Some [OF run [unfolded Some]]
  have "printer_id p \<noteq> 0" using c(2) nxt by (cases "pid = 0") simp_all
  moreover have "1 \<le> next_printer_id sys'" using c(4) nxt by (cases "pid = 0") simp_all
  ultimately show ?thesis using ids c(3) by (simp add: set_cupsArrayAdd)
qed

lemma papplPrinterDelete_ids_nonzero:
  assumes "1 \<le> next_printer_id sys" and "\<forall>q\<in>set (printers sys). printer_id q \<noteq> 0"
  shows "1 \<le> next_printer_id (papplPrinterDelete sys p) \<and>
         (\<forall>q\<in>set (printers (papplPrinterDelete sys p)). printer_id q \<noteq> 0)"
  using assms set_cupsArrayRemove_subset [of p "printers sys"]
  by (auto simp: papplPrinterDelete_def)

lemma run_calls_ids_nonzero:
  assumes "run_calls b cs sys = Inr (ps, sys')"
    and "1 \<le> next_printer_id sys"
    and "\<forall>q\<in>set (printers sys). printer_id q \<noteq> 0"
  shows "1 \<le> next_printer_id sys' \<and> (\<forall>q\<in>set (printers sys'). printer_id q \<noteq> 0)"
  using assms
proof (induction cs arbitrary: sys ps)
  case Nil
  then show ?case by simp
next
  case (Cons c cs)
  show ?case
  proof (cases c)
    case (Create env pid n d u)
    with Cons.prems(1) obtain r sys1 acts ps1 where
      c1: "papplPrinterCreate b env sys pid n d u = Inr (r, sys1, acts)"
      and r1: "run_calls b cs sys1 = Inr (ps1, sys')"
      by (auto split: sum.splits prod.splits)
    from papplPrinterCreate_ids_nonzero [OF c1 Cons.prems(2,3)]
    show ?thesis using Cons.IH [OF r1] by simp
  next
    case (Delete p)
    with Cons.prems(1) have r1: "run_calls b cs (papplPrinterDelete sys p) = Inr (ps, sys')"
      by simp
    from papplPrinterDelete_ids_nonzero [OF Cons.prems(2,3), of p]
    show ?thesis using Cons.IH [OF r1] by simp
  qed
qed

lemma run_calls_zero_ids:
  assumes "\<forall>c\<in>set cs. passes_zero_id c" and "run_calls b cs sys = Inr (ps, sys')"
  shows "map printer_id ps = [next_printer_id sys .. next_printer_id sys' - 1]
         \<and> next_printer_id sys \<le> next_printer_id sys'"
  using assms
proof (induction cs arbitrary: sys ps)
  case Nil
  then show ?case by simp
next
  case (Cons c cs)
  from Cons.prems(1) have rest: "\<forall>c\<in>set cs. passes_zero_id c" by simp
  show ?case
  proof (cases c)
    case (Create env pid n d u)
    with Cons.prems(1) have pid: "pid = 0" by simp
    from Create Cons.prems(2) obtain r sys1 acts ps1 where
      c1: "papplPrinterCreate b env sys pid n d u = Inr (r, sys1, acts)"
      and r1: "run_calls b cs sys1 = Inr (ps1, sys')"
      and ps: "ps = (case r of None \<Rightarrow> [] | Some p \<Rightarrow> [p]) @ ps1"
      by (auto split: sum.splits prod.splits)
    note ih = Cons.IH [OF rest r1]
    show ?thesis
    proof (cases r)
      case None
      with c1 have "sys1 = sys" by (simp add: papplPrinterCreate_None)
      with ih ps None show ?thesis by simp
    next
      case (Some p)
      note c = papplPrinterCreate_Some [OF c1 [unfolded Some]]
      have idp: "printer_id p = next_printer_id sys" using c(2) pid by simp
      have n1: "next_printer_id sys1 = next_printer_id sys + 1" using c(4) pid by simp
      from ih n1 have le: "next_printer_id sys \<le> next_printer_id sys' - 1" by simp
      have "[next_printer_id sys .. next_printer_id sys' - 1]
              = next_printer_id sys # [next_printer_id sys + 1 .. next_printer_id sys' - 1]"
        using le by (simp add: upto_rec1)
      with ih n1 idp ps Some show ?thesis by simp
    qed
  next
    case (Delete p)
    with Cons.prems(2) have r1: "run_calls b cs (papplPrinterDelete sys p) = Inr (ps, sys')"
      by simp
    from Cons.IH [OF rest r1] show ?thesis by (simp add: papplPrinterDelete_def)
  qed
qed

lemma creates_pass_zero_id: "creates_with_zero_id c \<Longrightarrow> passes_zero_id c"
  by (cases c) simp_all

lemma run_calls_creates_only:
  assumes "\<forall>c\<in>set cs. creates_with_zero_id c" and "run_calls b cs sys = Inr (ps, sys')"
  shows "set (printers sys') = set (printers sys) \<union> set ps
         \<and> (default_printer_id sys \<noteq> 0 \<longrightarrow> default_printer_id sys' = default_printer_id sys)"
  using assms
proof (induction cs arbitrary: sys ps)
  case Nil
  then show ?case by simp
next
  case (Cons c cs)
  from Cons.prems(1) have rest: "\<forall>c\<in>set cs. creates_with_zero_id c" by simp
  from Cons.prems(1) obtain env pid n d u where c: "c = Create env pid n d u"
    by (cases c) auto
  from c Cons.prems(2) obtain r sys1 acts ps1 where
    c1: "papplPrinterCreate b env sys pid n d u = Inr (r, sys1, acts)"
    and r1: "run_calls b cs sys1 = Inr (ps1, sys')"
    and ps: "ps = (case r of None \<Rightarrow> [] | Some p \<Rightarrow> [p]) @ ps1"
    by (auto split: sum.splits prod.splits)
  note ih = Cons.IH [OF rest r1]
  show ?case
  proof (cases r)
    case None
    with c1 have "sys1 = sys" by (simp add: papplPrinterCreate_None)
    with ih ps None show ?thesis by simp
  next
    case (Some p)
    note f = papplPrinterCreate_Some [OF c1 [unfolded Some]]
    from f(3) have "set (printers sys1) = insert p (set (printers sys))"
      by (simp add: set_cupsArrayAdd)
    moreover from f(5) have "default_printer_id sys \<noteq> 0 \<longrightarrow>
        default_printer_id sys1 = default_printer_id sys \<and> default_printer_id sys1 \<noteq> 0"
      by simp
    ultimately show ?thesis using ih ps Some by auto
  qed
qed

lemma ex_run_foo_4inch:
  "run_calls ex_build [ex_create ''foo'', ex_create ''4inch''] ex_system
     = Inr ([ex_printer ''foo'' 1, ex_printer ''4inch'' 2], ex_system_foo_4inch)"
  by (simp add: ex_create_def papplPrinterCreate_def ex_env_def ex_system_def
      ex_system_foo_4inch_def INT_MAX_def add_to_system_def Let_def ex_printer_def
      compare_printers_def init_printer_fields)


lemma ex_run_4inch:
  "run_calls ex_build [ex_create ''4inch''] ex_system_foo
     = Inr ([ex_printer ''4inch'' 2], ex_system_foo_4inch)"
  by (simp add: ex_create_def papplPrinterCreate_def ex_env_def ex_system_def ex_system_foo_def
      ex_system_foo_4inch_def INT_MAX_def add_to_system_def Let_def ex_printer_def
      compare_printers_def init_printer_fields)

lemma papplPrinterCreate_returns:
  assumes "next_printer_id sys < INT_MAX"
  shows "\<exists>r sys' acts. papplPrinterCreate b env sys pid n d u = Inr (r, sys', acts)
           \<and> next_printer_id sys' \<le> next_printer_id sys + 1"
  using assms
  by (auto simp: papplPrinterCreate_def add_to_system_def Let_def)

lemma run_calls_returns:
  assumes "next_printer_id sys + int (length cs) \<le> INT_MAX"
  shows "\<exists>ps sys'. run_calls b cs sys = Inr (ps, sys')"
  using assms
proof (induction cs arbitrary: sys)
  case Nil
  then show ?case by simp
next
  case (Cons c cs)
  show ?case
  proof (cases c)
    case (Create env pid n d u)
    from Cons.prems have "next_printer_id sys < INT_MAX" by simp
    from papplPrinterCreate_returns [OF this, of b env pid n d u]
    obtain r sys1 acts where
      c1: "papplPrinterCreate b env sys pid n d u = Inr (r, sys1, acts)"
      and n1: "next_printer_id sys1 \<le> next_printer_id sys + 1" by blast
    from n1 Cons.prems have "next_printer_id sys1 + int (length cs) \<le> INT_MAX" by simp
    from Cons.IH [OF this] obtain ps sys' where "run_calls b cs sys1 = Inr (ps, sys')"
      by blast
    with c1 Create show ?thesis by simp
  next
    case (Delete p)
    from Cons.prems
    have "next_printer_id (papplPrinterDelete sys p) + int (length cs) \<le> INT_MAX"
      by (simp add: papplPrinterDelete_def)
    from Cons.IH [OF this] Delete show ?thesis by simp
  qed
qed

lemma run_calls_zero_ids_upto:
  assumes "\<forall>c\<in>set cs. passes_zero_id c" and "run_calls b cs sys = Inr (ps, sys')"
  shows "map printer_id ps = [next_printer_id sys .. next_printer_id sys + int (length ps) - 1]"
    and "next_printer_id sys' = next_printer_id sys + int (length ps)"
proof -
  from run_calls_zero_ids [OF assms]
  have ids: "map printer_id ps = [next_printer_id sys .. next_printer_id sys' - 1]"
    and le: "next_printer_id sys \<le> next_printer_id sys'" by simp_all
  have "length (map printer_id ps) = length [next_printer_id sys .. next_printer_id sys' - 1]"
    by (simp only: ids)
  with le show len: "next_printer_id sys' = next_printer_id sys + int (length ps)" by simp
  show "map printer_id ps = [next_printer_id sys .. next_printer_id sys + int (length ps) - 1]"
    using ids len by simp
qed

text \<open>
  C1. A sequence of calls on one system returns, without overflowing the \<open>int\<close>
  counter, whenever the counter has room for one id per call. In every sequence that
  returns and in which each \<open>papplPrinterCreate\<close> passes 0 as the printer id (deletions
  may come in between), the ids of the printers created are, in call order,
  \<open>next_printer_id\<close>, \<open>next_printer_id + 1\<close>, ...: strictly increasing and distinct,
  so no id is given twice, and the counter ends one past the last id. On a system
  whose counter is at its starting value 1 they are 1, 2, ..., n.
\<close>

theorem allocated_ids_increase:
  "(next_printer_id sys + int (length cs) \<le> INT_MAX \<longrightarrow>
      (\<exists>ps sys'. run_calls b cs sys = Inr (ps, sys')))
   \<and> ((\<forall>c\<in>set cs. passes_zero_id c) \<and> run_calls b cs sys = Inr (ps, sys') \<longrightarrow>
        map printer_id ps = [next_printer_id sys .. next_printer_id sys + int (length ps) - 1]
        \<and> sorted_wrt (<) (map printer_id ps)
        \<and> distinct (map printer_id ps)
        \<and> next_printer_id sys' = next_printer_id sys + int (length ps)
        \<and> (next_printer_id sys = 1 \<longrightarrow> map printer_id ps = [1 .. int (length ps)]))"
proof (intro conjI impI)
  assume "next_printer_id sys + int (length cs) \<le> INT_MAX"
  then show "\<exists>ps sys'. run_calls b cs sys = Inr (ps, sys')" by (rule run_calls_returns)
next
  assume a: "(\<forall>c\<in>set cs. passes_zero_id c) \<and> run_calls b cs sys = Inr (ps, sys')"
  then have z: "\<forall>c\<in>set cs. passes_zero_id c" and r: "run_calls b cs sys = Inr (ps, sys')"
    by simp_all
  note ids = run_calls_zero_ids_upto [OF z r]
  show 1: "map printer_id ps = [next_printer_id sys .. next_printer_id sys + int (length ps) - 1]"
    by (rule ids(1))
  show "sorted_wrt (<) (map printer_id ps)"
    unfolding ids(1) by (simp add: strict_sorted_iff)
  show "distinct (map printer_id ps)" unfolding ids(1) by simp
  show "next_printer_id sys' = next_printer_id sys + int (length ps)" by (rule ids(2))
  assume "next_printer_id sys = 1"
  with 1 show "map printer_id ps = [1 .. int (length ps)]" by simp
qed

theorem allocated_ids_increase_witness:
  "next_printer_id ex_system + int (length [ex_create ''foo'', ex_create ''4inch'']) \<le> INT_MAX
   \<and> passes_zero_id (ex_create ''foo'') \<and> passes_zero_id (ex_create ''4inch'')
   \<and> next_printer_id ex_system = 1
   \<and> run_calls ex_build [ex_create ''foo'', ex_create ''4inch''] ex_system
       = Inr ([ex_printer ''foo'' 1, ex_printer ''4inch'' 2], ex_system_foo_4inch)
   \<and> map printer_id [ex_printer ''foo'' 1, ex_printer ''4inch'' 2] = [1, 2]
   \<and> next_printer_id ex_system_foo_4inch = 3"
proof -
  have z: "\<forall>c\<in>set [ex_create ''foo'', ex_create ''4inch'']. passes_zero_id c"
    by (simp add: ex_create_def)
  have n: "next_printer_id ex_system = 1" by (simp add: ex_system_def)
  have room: "next_printer_id ex_system + int (length [ex_create ''foo'', ex_create ''4inch''])
      \<le> INT_MAX" by (simp add: n INT_MAX_def)
  note t = allocated_ids_increase [where sys = ex_system and b = ex_build
      and cs = "[ex_create ''foo'', ex_create ''4inch'']"
      and ps = "[ex_printer ''foo'' 1, ex_printer ''4inch'' 2]" and sys' = ex_system_foo_4inch]
  from t z ex_run_foo_4inch n
  have "map printer_id [ex_printer ''foo'' 1, ex_printer ''4inch'' 2] = [1 .. 2]"
    and "next_printer_id ex_system_foo_4inch = 3"
    by simp_all
  moreover have "[1 .. 2] = [1, 2::int]" by (simp add: upto_rec1)
  ultimately show ?thesis using z n room ex_run_foo_4inch by simp
qed

text \<open>
  C10. Take a system whose counter is at least 1 and whose printers all have a nonzero
  id, as the system is before the first printer is created. A sequence of creations
  and deletions returns whenever the counter has room for one id per call, and after
  any sequence that returns every registered printer still has a nonzero id, a lookup
  with a null path and id 0 goes into the scan with exactly these arguments, and it
  returns no printer.
\<close>

theorem find_null_zero_is_none:
  "(next_printer_id sys0 + int (length cs) \<le> INT_MAX \<longrightarrow>
      (\<exists>ps sys. run_calls b cs sys0 = Inr (ps, sys)))
   \<and> (1 \<le> next_printer_id sys0 \<and> (\<forall>q\<in>set (printers sys0). printer_id q \<noteq> 0)
        \<and> run_calls b cs sys0 = Inr (ps, sys) \<longrightarrow>
        find_target sys None 0 = (None, 0)
        \<and> (\<forall>q\<in>set (printers sys). printer_id q \<noteq> 0)
        \<and> papplSystemFindPrinter sys None 0 = None)"
proof (intro conjI impI)
  assume "next_printer_id sys0 + int (length cs) \<le> INT_MAX"
  then show "\<exists>ps sys. run_calls b cs sys0 = Inr (ps, sys)" by (rule run_calls_returns)
next
  assume a: "1 \<le> next_printer_id sys0 \<and> (\<forall>q\<in>set (printers sys0). printer_id q \<noteq> 0)
        \<and> run_calls b cs sys0 = Inr (ps, sys)"
  then have "1 \<le> next_printer_id sys0" and "\<forall>q\<in>set (printers sys0). printer_id q \<noteq> 0"
    and "run_calls b cs sys0 = Inr (ps, sys)" by simp_all
  from run_calls_ids_nonzero [OF this(3) this(1) this(2)]
  show ids: "\<forall>q\<in>set (printers sys). printer_id q \<noteq> 0" by simp
  show "find_target sys None 0 = (None, 0)" by (simp add: find_target_def)
  from ids have "find_scan (printers sys) None 0 = None"
    by (simp add: find_scan_None_iff)
  then show "papplSystemFindPrinter sys None 0 = None"
    by (simp add: papplSystemFindPrinter_def find_target_def)
qed

theorem find_null_zero_is_none_witness:
  "next_printer_id ex_system + int (length [ex_create ''foo'', ex_create ''4inch'']) \<le> INT_MAX
   \<and> 1 \<le> next_printer_id ex_system \<and> printers ex_system = []
   \<and> run_calls ex_build [ex_create ''foo'', ex_create ''4inch''] ex_system
       = Inr ([ex_printer ''foo'' 1, ex_printer ''4inch'' 2], ex_system_foo_4inch)
   \<and> papplSystemFindPrinter ex_system_foo_4inch None 0 = None"
proof -
  have h1: "1 \<le> next_printer_id ex_system" and h0: "printers ex_system = []"
    by (simp_all add: ex_system_def)
  have h2: "\<forall>q\<in>set (printers ex_system). printer_id q \<noteq> 0" by (simp add: h0)
  have room: "next_printer_id ex_system + int (length [ex_create ''foo'', ex_create ''4inch''])
      \<le> INT_MAX" by (simp add: ex_system_def INT_MAX_def)
  note t = find_null_zero_is_none [where ?sys0.0 = ex_system and b = ex_build
      and cs = "[ex_create ''foo'', ex_create ''4inch'']"
      and ps = "[ex_printer ''foo'' 1, ex_printer ''4inch'' 2]" and sys = ex_system_foo_4inch]
  from t h1 h2 ex_run_foo_4inch
  have "papplSystemFindPrinter ex_system_foo_4inch None 0 = None" by simp
  with h1 h0 room ex_run_foo_4inch show ?thesis by simp
qed

section \<open>Lookup of the default printer\<close>

text \<open>
  C2. For the path \<open>/ipp/print\<close> and for \<open>/ipp/print/\<close> followed by one or more
  digits, \<open>papplSystemFindPrinter\<close> replaces the printer id by the system's default
  printer id and the path by \<open>NULL\<close> before it scans. On a system with no printer and
  no default, once a printer \<open>foo\<close> has been created, the lookup of \<open>/ipp/print\<close>
  with id 0 returns that printer, and it still does after any further creations
  with id 0 on a system whose counter started at 1.
\<close>

theorem find_default_path:
  "((path = ''/ipp/print''
       \<or> (\<exists>ds. ds \<noteq> [] \<and> (\<forall>c\<in>set ds. isdigit c) \<and> path = ''/ipp/print/'' @ ds)) \<longrightarrow>
      find_target sys (Some path) pid = (None, default_printer_id sys)
      \<and> papplSystemFindPrinter sys (Some path) pid
          = find_scan (printers sys) None (default_printer_id sys))
   \<and> (printers sys0 = [] \<and> default_printer_id sys0 = 0
        \<and> papplPrinterCreate b env sys0 pid0 ''foo'' d u = Inr (Some p, sys1, acts) \<longrightarrow>
      name p = ''foo'' \<and> papplSystemFindPrinter sys1 (Some ''/ipp/print'') 0 = Some p)
   \<and> (printers sys0 = [] \<and> default_printer_id sys0 = 0 \<and> next_printer_id sys0 = 1
        \<and> papplPrinterCreate b env sys0 0 ''foo'' d u = Inr (Some p, sys1, acts)
        \<and> (\<forall>c\<in>set cs. creates_with_zero_id c)
        \<and> run_calls b cs sys1 = Inr (ps, sys2) \<longrightarrow>
      papplSystemFindPrinter sys2 (Some ''/ipp/print'') 0 = Some p)"
proof (intro conjI impI)
  assume "path = ''/ipp/print''
       \<or> (\<exists>ds. ds \<noteq> [] \<and> (\<forall>c\<in>set ds. isdigit c) \<and> path = ''/ipp/print/'' @ ds)"
  then have d: "is_default_path path"
    using is_default_path_root is_default_path_numeric by blast
  then show "find_target sys (Some path) pid = (None, default_printer_id sys)"
    by (simp add: find_target_def)
  then show "papplSystemFindPrinter sys (Some path) pid
          = find_scan (printers sys) None (default_printer_id sys)"
    by (simp add: papplSystemFindPrinter_def)
next
  assume a: "printers sys0 = [] \<and> default_printer_id sys0 = 0
        \<and> papplPrinterCreate b env sys0 pid0 ''foo'' d u = Inr (Some p, sys1, acts)"
  then have c: "papplPrinterCreate b env sys0 pid0 ''foo'' d u = Inr (Some p, sys1, acts)"
    by simp
  note f = papplPrinterCreate_Some [OF c]
  from f(2) show "name p = ''foo''" by (simp add: init_printer_fields)
  from f(3) a have "printers sys1 = [p]" by simp
  moreover from f(5) a have "default_printer_id sys1 = printer_id p" by simp
  ultimately show "papplSystemFindPrinter sys1 (Some ''/ipp/print'') 0 = Some p"
    by (simp add: papplSystemFindPrinter_def find_target_def is_default_path_root)
next
  assume a: "printers sys0 = [] \<and> default_printer_id sys0 = 0 \<and> next_printer_id sys0 = 1
        \<and> papplPrinterCreate b env sys0 0 ''foo'' d u = Inr (Some p, sys1, acts)
        \<and> (\<forall>c\<in>set cs. creates_with_zero_id c)
        \<and> run_calls b cs sys1 = Inr (ps, sys2)"
  then have c: "papplPrinterCreate b env sys0 0 ''foo'' d u = Inr (Some p, sys1, acts)"
    and cs: "\<forall>c\<in>set cs. creates_with_zero_id c"
    and r: "run_calls b cs sys1 = Inr (ps, sys2)"
    by simp_all
  note f = papplPrinterCreate_Some [OF c]
  from f(2) a have idp: "printer_id p = 1" by simp
  from f(3) a have p1: "printers sys1 = [p]" by simp
  from f(4) a have n1: "next_printer_id sys1 = 2" by simp
  from f(5) a idp have d1: "default_printer_id sys1 = 1" by simp
  from run_calls_creates_only [OF cs r] p1 d1
  have set2: "set (printers sys2) = insert p (set ps)" and d2: "default_printer_id sys2 = 1"
    by simp_all
  from cs have "\<forall>c\<in>set cs. passes_zero_id c" by (simp add: creates_pass_zero_id)
  from run_calls_zero_ids [OF this r] n1
  have "map printer_id ps = [2 .. next_printer_id sys2 - 1]" by simp
  then have "set (map printer_id ps) = {2 .. next_printer_id sys2 - 1}" by simp
  then have "\<forall>q\<in>set ps. 2 \<le> printer_id q" by auto
  with set2 idp have "\<forall>q\<in>set (printers sys2). printer_id q = printer_id p \<longrightarrow> q = p"
    by auto
  moreover have "p \<in> set (printers sys2)" using set2 by simp
  ultimately have "find_scan (printers sys2) None (printer_id p) = Some p"
    by (rule find_scan_by_id_unique [rotated])
  then show "papplSystemFindPrinter sys2 (Some ''/ipp/print'') 0 = Some p"
    using d2 idp by (simp add: papplSystemFindPrinter_def find_target_def is_default_path_root)
qed

theorem find_default_path_witness:
  "isdigit CHR ''4'' \<and> isdigit CHR ''2''
   \<and> papplSystemFindPrinter ex_system_foo_4inch (Some ''/ipp/print/42'') 0
       = find_scan (printers ex_system_foo_4inch) None (default_printer_id ex_system_foo_4inch)
   \<and> papplSystemFindPrinter ex_system_foo_4inch (Some ''/ipp/print/42'') 0
       = Some (ex_printer ''foo'' 1)
   \<and> printers ex_system = [] \<and> default_printer_id ex_system = 0
   \<and> next_printer_id ex_system = 1
   \<and> papplPrinterCreate ex_build ex_env ex_system 0 ''foo'' ''pwg_2inch-203dpi-black_1''
         ''file:///dev/null'' = Inr (Some (ex_printer ''foo'' 1), ex_system_foo, [])
   \<and> papplSystemFindPrinter ex_system_foo (Some ''/ipp/print'') 0 = Some (ex_printer ''foo'' 1)
   \<and> creates_with_zero_id (ex_create ''4inch'')
   \<and> run_calls ex_build [ex_create ''4inch''] ex_system_foo
       = Inr ([ex_printer ''4inch'' 2], ex_system_foo_4inch)
   \<and> papplSystemFindPrinter ex_system_foo_4inch (Some ''/ipp/print'') 0
       = Some (ex_printer ''foo'' 1)"
proof -
  have dg: "isdigit CHR ''4''" "isdigit CHR ''2''" by (simp_all add: isdigit_def)
  have sys0: "printers ex_system = []" "default_printer_id ex_system = 0"
    "next_printer_id ex_system = 1"
    by (simp_all add: ex_system_def)
  have cs: "\<forall>c\<in>set [ex_create ''4inch'']. creates_with_zero_id c"
    by (simp add: ex_create_def)
  have path: "''/ipp/print/42'' = ''/ipp/print/'' @ ''42''" by simp
  have num: "\<exists>ds. ds \<noteq> [] \<and> (\<forall>c\<in>set ds. isdigit c) \<and> ''/ipp/print/42'' = ''/ipp/print/'' @ ds"
    using dg by (intro exI [of _ "''42''"]) simp
  note t = find_default_path [where path = "''/ipp/print/42''" and sys = ex_system_foo_4inch
      and pid = 0 and ?sys0.0 = ex_system and b = ex_build and env = ex_env and ?pid0.0 = 0
      and d = "''pwg_2inch-203dpi-black_1''" and u = "''file:///dev/null''"
      and p = "ex_printer ''foo'' 1" and ?sys1.0 = ex_system_foo and acts = "[]"
      and cs = "[ex_create ''4inch'']" and ps = "[ex_printer ''4inch'' 2]"
      and ?sys2.0 = ex_system_foo_4inch]
  from t num have 1: "papplSystemFindPrinter ex_system_foo_4inch (Some ''/ipp/print/42'') 0
       = find_scan (printers ex_system_foo_4inch) None (default_printer_id ex_system_foo_4inch)"
    by blast
  have 2: "find_scan (printers ex_system_foo_4inch) None (default_printer_id ex_system_foo_4inch)
       = Some (ex_printer ''foo'' 1)"
    by (simp add: ex_system_foo_4inch_def ex_system_def ex_printer_def)
  from t sys0 ex_create_foo
  have 3: "papplSystemFindPrinter ex_system_foo (Some ''/ipp/print'') 0 = Some (ex_printer ''foo'' 1)"
    by blast
  from t sys0 ex_create_foo cs ex_run_4inch
  have 4: "papplSystemFindPrinter ex_system_foo_4inch (Some ''/ipp/print'') 0
       = Some (ex_printer ''foo'' 1)"
    by blast
  have 5: "creates_with_zero_id (ex_create ''4inch'')" by (simp add: ex_create_def)
  from dg 1 2 3 4 5 sys0 ex_create_foo ex_run_4inch show ?thesis by simp
qed

section \<open>Lookup by resource path\<close>



lemma not_default_path_ab: "\<not> is_default_path ''/ipp/print/ab''"
  by (simp add: is_default_path_def strncmp_def char_at_def isdigit_def)







section \<open>Deletion\<close>

lemma compare_printers_eq_0_iff: "compare_printers a b = 0 \<longleftrightarrow> name a = name b"
  by (simp add: compare_printers_def strcmp_eq_0_iff)

lemma cupsArrayRemove_distinct_names:
  assumes "distinct (map name xs)" and "p \<in> set xs"
  shows "set (cupsArrayRemove p xs) = set xs - {p}"
  using assms
proof (induction xs)
  case Nil
  then show ?case by simp
next
  case (Cons x xs)
  show ?case
  proof (cases "name p = name x")
    case True
    from Cons.prems(1) have nx: "name x \<notin> name ` set xs" by simp
    with True have "p \<notin> set xs" by (metis imageI)
    with Cons.prems(2) have "p = x" by simp
    with \<open>p \<notin> set xs\<close> show ?thesis by (simp add: compare_printers_eq_0_iff)
  next
    case False
    then have "p \<noteq> x" by auto
    with Cons.prems(2) have "p \<in> set xs" by simp
    with Cons.IH Cons.prems(1) have "set (cupsArrayRemove p xs) = set xs - {p}" by simp
    with False \<open>p \<noteq> x\<close> show ?thesis by (auto simp: compare_printers_eq_0_iff)
  qed
qed

text \<open>
  C4, as amended. \<open>papplPrinterDelete\<close> leaves \<open>default_printer_id\<close> and
  \<open>next_printer_id\<close> as they were. When the printer is registered and the names of the
  collection are distinct, it takes exactly that printer out. A later lookup by the
  printer's id then returns none if no other registered printer has the same id; a later
  lookup by its resource path returns none if the path is not one that the lookup
  redirects to the default printer and no other registered printer has the printer id
  passed or a resource that matches the path.
\<close>

theorem delete_then_find:
  "default_printer_id (papplPrinterDelete sys p) = default_printer_id sys
   \<and> next_printer_id (papplPrinterDelete sys p) = next_printer_id sys
   \<and> (p \<in> set (printers sys) \<and> distinct (map name (printers sys)) \<longrightarrow>
        set (printers (papplPrinterDelete sys p)) = set (printers sys) - {p})
   \<and> (p \<in> set (printers sys) \<and> distinct (map name (printers sys))
        \<and> (\<forall>q\<in>set (printers sys). q \<noteq> p \<longrightarrow> printer_id q \<noteq> printer_id p) \<longrightarrow>
        papplSystemFindPrinter (papplPrinterDelete sys p) None (printer_id p) = None)
   \<and> (p \<in> set (printers sys) \<and> distinct (map name (printers sys))
        \<and> \<not> is_default_path (resource p)
        \<and> (\<forall>q\<in>set (printers sys). q \<noteq> p \<longrightarrow>
              printer_id q \<noteq> pid \<and> \<not> resource_matches q (resource p)) \<longrightarrow>
        papplSystemFindPrinter (papplPrinterDelete sys p) (Some (resource p)) pid = None)"
proof (intro conjI impI)
  show "default_printer_id (papplPrinterDelete sys p) = default_printer_id sys"
    by (simp add: papplPrinterDelete_def)
  show "next_printer_id (papplPrinterDelete sys p) = next_printer_id sys"
    by (simp add: papplPrinterDelete_def)
next
  assume "p \<in> set (printers sys) \<and> distinct (map name (printers sys))"
  then show "set (printers (papplPrinterDelete sys p)) = set (printers sys) - {p}"
    by (simp add: papplPrinterDelete_def cupsArrayRemove_distinct_names)
next
  assume a: "p \<in> set (printers sys) \<and> distinct (map name (printers sys))
        \<and> (\<forall>q\<in>set (printers sys). q \<noteq> p \<longrightarrow> printer_id q \<noteq> printer_id p)"
  then have "set (printers (papplPrinterDelete sys p)) = set (printers sys) - {p}"
    by (simp add: papplPrinterDelete_def cupsArrayRemove_distinct_names)
  with a have "find_scan (printers (papplPrinterDelete sys p)) None (printer_id p) = None"
    by (simp add: find_scan_None_iff)
  then show "papplSystemFindPrinter (papplPrinterDelete sys p) None (printer_id p) = None"
    by (simp add: papplSystemFindPrinter_def find_target_def)
next
  assume a: "p \<in> set (printers sys) \<and> distinct (map name (printers sys))
        \<and> \<not> is_default_path (resource p)
        \<and> (\<forall>q\<in>set (printers sys). q \<noteq> p \<longrightarrow>
              printer_id q \<noteq> pid \<and> \<not> resource_matches q (resource p))"
  then have "set (printers (papplPrinterDelete sys p)) = set (printers sys) - {p}"
    by (simp add: papplPrinterDelete_def cupsArrayRemove_distinct_names)
  with a have "find_scan (printers (papplPrinterDelete sys p)) (Some (resource p)) pid = None"
    by (simp add: find_scan_None_iff)
  with a show "papplSystemFindPrinter (papplPrinterDelete sys p) (Some (resource p)) pid = None"
    by (simp add: papplSystemFindPrinter_def find_target_def)
qed

theorem delete_then_find_witness:
  "ex_printer ''ab'' 2 \<in> set (printers ex_system_a_ab)
   \<and> distinct (map name (printers ex_system_a_ab))
   \<and> \<not> is_default_path (resource (ex_printer ''ab'' 2))
   \<and> printers (papplPrinterDelete ex_system_a_ab (ex_printer ''ab'' 2)) = [ex_printer ''a'' 1]
   \<and> printer_id (ex_printer ''a'' 1) \<noteq> printer_id (ex_printer ''ab'' 2)
   \<and> printer_id (ex_printer ''a'' 1) \<noteq> 0
   \<and> \<not> resource_matches (ex_printer ''a'' 1) (resource (ex_printer ''ab'' 2))
   \<and> papplSystemFindPrinter (papplPrinterDelete ex_system_a_ab (ex_printer ''ab'' 2)) None
         (printer_id (ex_printer ''ab'' 2)) = None
   \<and> papplSystemFindPrinter (papplPrinterDelete ex_system_a_ab (ex_printer ''ab'' 2))
         (Some (resource (ex_printer ''ab'' 2))) 0 = None
   \<and> default_printer_id (papplPrinterDelete ex_system_a_ab (ex_printer ''ab'' 2)) = 1
   \<and> next_printer_id (papplPrinterDelete ex_system_a_ab (ex_printer ''ab'' 2)) = 3"
proof -
  have ps: "printers ex_system_a_ab = [ex_printer ''a'' 1, ex_printer ''ab'' 2]"
    and dn: "default_printer_id ex_system_a_ab = 1" "next_printer_id ex_system_a_ab = 3"
    by (simp_all add: ex_system_a_ab_def ex_system_def)
  have h1: "ex_printer ''ab'' 2 \<in> set (printers ex_system_a_ab)" by (simp add: ps)
  have h2: "distinct (map name (printers ex_system_a_ab))" by (simp add: ps ex_resources)
  have h3: "\<not> is_default_path (resource (ex_printer ''ab'' 2))"
    by (simp add: ex_resources make_resource_def not_default_path_ab)
  have m: "\<not> resource_matches (ex_printer ''a'' 1) (resource (ex_printer ''ab'' 2))"
    by (simp add: resource_matches_def ex_resources make_resource_def char_at_def)
  have i: "printer_id (ex_printer ''a'' 1) \<noteq> printer_id (ex_printer ''ab'' 2)"
    "printer_id (ex_printer ''a'' 1) \<noteq> 0"
    by (simp_all add: ex_resources)
  have h4: "\<forall>q\<in>set (printers ex_system_a_ab). q \<noteq> ex_printer ''ab'' 2 \<longrightarrow>
              printer_id q \<noteq> printer_id (ex_printer ''ab'' 2)"
    using i by (simp add: ps)
  have h5: "\<forall>q\<in>set (printers ex_system_a_ab). q \<noteq> ex_printer ''ab'' 2 \<longrightarrow>
              printer_id q \<noteq> 0 \<and> \<not> resource_matches q (resource (ex_printer ''ab'' 2))"
    using i m by (simp add: ps)
  have d: "printers (papplPrinterDelete ex_system_a_ab (ex_printer ''ab'' 2)) = [ex_printer ''a'' 1]"
    by (simp add: papplPrinterDelete_def ps compare_printers_def ex_resources)
  note t = delete_then_find [where sys = ex_system_a_ab and p = "ex_printer ''ab'' 2" and pid = 0]
  from t h1 h2 h4 have 1: "papplSystemFindPrinter (papplPrinterDelete ex_system_a_ab (ex_printer ''ab'' 2)) None
         (printer_id (ex_printer ''ab'' 2)) = None" by blast
  from t h1 h2 h3 h5 have 2: "papplSystemFindPrinter (papplPrinterDelete ex_system_a_ab (ex_printer ''ab'' 2))
         (Some (resource (ex_printer ''ab'' 2))) 0 = None" by blast
  from t dn have 3: "default_printer_id (papplPrinterDelete ex_system_a_ab (ex_printer ''ab'' 2)) = 1"
    "next_printer_id (papplPrinterDelete ex_system_a_ab (ex_printer ''ab'' 2)) = 3" by simp_all
  from h1 h2 h3 d i m 1 2 3 show ?thesis by blast
qed

text \<open>
  The claim as it was stated has none of these conditions. With \<open>foo\<close> (id 1, the
  default) and \<open>4inch\<close> (id 2) created in this order and \<open>4inch\<close> deleted, the lookup
  of \<open>/ipp/print/4inch\<close> with id 0 returns \<open>foo\<close>: the digit after \<open>/ipp/print/\<close>
  makes the lookup one for the default printer.
\<close>

theorem delete_then_find_counterexample:
  "run_calls ex_build [ex_create ''foo'', ex_create ''4inch''] ex_system
     = Inr ([ex_printer ''foo'' 1, ex_printer ''4inch'' 2], ex_system_foo_4inch)
   \<and> printers (papplPrinterDelete ex_system_foo_4inch (ex_printer ''4inch'' 2))
       = [ex_printer ''foo'' 1]
   \<and> resource (ex_printer ''4inch'' 2) = ''/ipp/print/4inch''
   \<and> papplSystemFindPrinter (papplPrinterDelete ex_system_foo_4inch (ex_printer ''4inch'' 2))
         (Some (resource (ex_printer ''4inch'' 2))) 0 = Some (ex_printer ''foo'' 1)"
proof -
  have ps: "printers ex_system_foo_4inch = [ex_printer ''4inch'' 2, ex_printer ''foo'' 1]"
    and dn: "default_printer_id ex_system_foo_4inch = 1"
    by (simp_all add: ex_system_foo_4inch_def ex_system_def)
  have d: "printers (papplPrinterDelete ex_system_foo_4inch (ex_printer ''4inch'' 2))
             = [ex_printer ''foo'' 1]"
    by (simp add: papplPrinterDelete_def ps compare_printers_def ex_resources)
  have r: "resource (ex_printer ''4inch'' 2) = ''/ipp/print/4inch''"
    by (simp add: ex_resources make_resource_def)
  have dp: "is_default_path ''/ipp/print/4inch''"
    by (simp add: is_default_path_def strncmp_def char_at_def isdigit_def)
  have "default_printer_id (papplPrinterDelete ex_system_foo_4inch (ex_printer ''4inch'' 2)) = 1"
    by (simp add: papplPrinterDelete_def dn)
  then have "papplSystemFindPrinter (papplPrinterDelete ex_system_foo_4inch (ex_printer ''4inch'' 2))
         (Some (resource (ex_printer ''4inch'' 2))) 0 = Some (ex_printer ''foo'' 1)"
    by (simp add: papplSystemFindPrinter_def find_target_def r dp d ex_resources(4))
  with d r ex_run_foo_4inch show ?thesis by simp
qed

section \<open>Document formats\<close>

lemma document_formats_None:
  "document_formats b None =
     ''application/octet-stream''
     # (if have_libjpeg b then [''image/jpeg''] else [])
     @ (if have_libpng b then [''image/png''] else [])
     @ [''image/pwg-raster'', ''image/urf'']"
  by (simp add: document_formats_def)

lemma document_formats_Some:
  "document_formats b (Some f) =
     ''application/octet-stream''
     # (if f \<noteq> ''application/octet-stream'' then [f] else [])
     @ (if have_libjpeg b then [''image/jpeg''] else [])
     @ (if have_libpng b then [''image/png''] else [])
     @ [''image/pwg-raster'', ''image/urf'']"
  by (simp add: document_formats_def strcmp_eq_0_iff)

lemma find_document_format_supported:
  "ippFindAttribute (printer_attrs n uuid fs k) ''document-format-supported'' = Some (IppStrings fs)"
  by (simp add: ippFindAttribute_def printer_attrs_def)

lemma papplPrinterCreate_driver_data:
  assumes "papplPrinterCreate b env sys pid n d u = Inr (Some p, sys', acts)"
  shows "driver_data p = calloc_driver_data"
  using papplPrinterCreate_Some(2) [OF assms]
  by (simp add: init_printer_def Let_def)

text \<open>
  The printer has just been allocated with \<open>calloc\<close> when the list is assembled, and
  the line that would create the driver is commented out. The format read is therefore
  always \<open>NULL\<close>: the attribute of a printer this function creates is the list without
  a driver format, which has no duplicates.
\<close>

lemma papplPrinterCreate_formats:
  assumes "papplPrinterCreate b env sys pid n d u = Inr (Some p, sys', acts)"
  shows "format (driver_data p) = None"
    and "ippFindAttribute (attrs p) ''document-format-supported''
           = Some (IppStrings (document_formats b None))"
    and "distinct (document_formats b None)"
  using papplPrinterCreate_driver_data [OF assms] papplPrinterCreate_attrs [OF assms]
  by (simp_all add: calloc_driver_data_def attrs_init_printer find_document_format_supported
      document_formats_None)

lemma ex_create_acme:
  "papplPrinterCreate ex_build_images ex_env ex_system 0 ''foo'' ''acme'' ''file:///dev/null''
     = Inr (Some ex_acme_printer, ex_system_acme, [])"
  by (simp add: papplPrinterCreate_def ex_env_def ex_system_def ex_system_acme_def
      INT_MAX_def add_to_system_def Let_def ex_acme_printer_def)

text \<open>
  C5. The property asks that a printer created for a driver whose own format is not the
  generic one lists the generic format, the driver's format and the two raster formats,
  without duplicates. \<open>papplPrinterCreate\<close> does not do this: the call below names the
  driver \<open>acme\<close> in a build with both image libraries and returns a printer whose
  driver format is \<open>NULL\<close> and whose \<open>document-format-supported\<close> attribute is the
  generic format, the two image formats and the two raster formats. No driver format
  such as \<open>image/vnd.acme-raster\<close> is in it.
\<close>

theorem created_formats_lack_native:
  "papplPrinterCreate ex_build_images ex_env ex_system 0 ''foo'' ''acme'' ''file:///dev/null''
     = Inr (Some ex_acme_printer, ex_system_acme, [])
   \<and> driver_name ex_acme_printer = ''acme''
   \<and> format (driver_data ex_acme_printer) = None
   \<and> ippFindAttribute (attrs ex_acme_printer) ''document-format-supported''
       = Some (IppStrings [''application/octet-stream'', ''image/jpeg'', ''image/png'',
                           ''image/pwg-raster'', ''image/urf''])
   \<and> ''image/vnd.acme-raster''
        \<notin> set [''application/octet-stream'', ''image/jpeg'', ''image/png'',
                 ''image/pwg-raster'', ''image/urf'']"
proof -
  note f = papplPrinterCreate_formats [OF ex_create_acme]
  have "document_formats ex_build_images None
          = [''application/octet-stream'', ''image/jpeg'', ''image/png'',
             ''image/pwg-raster'', ''image/urf'']"
    by (simp add: document_formats_None ex_build_images_def)
  moreover have "driver_name ex_acme_printer = ''acme''"
    by (simp add: ex_acme_printer_def init_printer_def Let_def)
  ultimately show ?thesis using f ex_create_acme by simp
qed

section \<open>Random numbers\<close>

lemma papplGetRand_fallback:
  assumes "reaches_fallback b env"
  shows "papplGetRand b env st =
           (word_of_nat (random_value env),
            if first_time st
            then st\<lparr> first_time := False,
                     srandom_calls := srandom_calls st @ [word_of_int (time_value env)] \<rparr>
            else st)"
  using assms by (simp add: papplGetRand_def reaches_fallback_def)

lemma papplGetRand_platform:
  assumes "\<not> reaches_fallback b env"
  shows "snd (papplGetRand b env st) = st"
  using assms by (auto simp: papplGetRand_def reaches_fallback_def split: option.splits)

lemma rand_calls_Cons:
  "rand_calls b (env # envs) st =
     (fst (papplGetRand b env st) # fst (rand_calls b envs (snd (papplGetRand b env st))),
      snd (rand_calls b envs (snd (papplGetRand b env st))))"
  by (simp split: prod.splits)

lemma rand_calls_length: "length (fst (rand_calls b envs st)) = length envs"
  by (induction envs arbitrary: st) (simp_all add: rand_calls_Cons del: rand_calls.simps(2))

text \<open>
  Calls that run one after the other seed the generator once: the first call that
  reaches the fallback does, with the time of that call.
\<close>

lemma rand_calls_seeds:
  "srandom_calls (snd (rand_calls b envs st)) =
     srandom_calls st @
       (if first_time st
        then (case find (reaches_fallback b) envs of
                None \<Rightarrow> [] | Some e \<Rightarrow> [word_of_int (time_value e)])
        else [])"
proof (induction envs arbitrary: st)
  case Nil
  then show ?case by simp
next
  case (Cons env envs)
  show ?case
  proof (cases "reaches_fallback b env")
    case True
    then show ?thesis
      by (simp add: rand_calls_Cons papplGetRand_fallback Cons.IH del: rand_calls.simps(2))
  next
    case False
    then show ?thesis
      by (simp add: rand_calls_Cons papplGetRand_platform Cons.IH del: rand_calls.simps(2))
  qed
qed

text \<open>A thread that runs alone goes through its call in four steps and does what the call does.\<close>

lemma rand_schedule_alone:
  "rand_schedule b [0, 0, 0, 0] [(env, Entry)] st
     = ([(env, Returned (fst (papplGetRand b env st)))], snd (papplGetRand b env st))"
  by (simp add: rand_step_def papplGetRand_def split: option.splits)

text \<open>The seed is the time as an \<open>unsigned\<close>: a clock at -1 seeds with \<open>2^32 - 1\<close>.\<close>

lemma srandom_seed_unsigned:
  "srandom_calls (snd (papplGetRand ex_build (ex_rand_env None (- 1) 5) rand_init))
     = [4294967295]"
  by (simp add: papplGetRand_def platform_random_def ex_build_def ex_rand_env_def rand_init_def)

text \<open>
  C9. The property asks that the fallback seeds the generator exactly once per process,
  in the first call that reaches it. The function tests and clears its static flag
  without a lock. Two threads whose first calls both reach the fallback, the second
  testing the flag before the first has cleared it, both call \<open>srandom\<close>: the generator
  is seeded twice. Each call still returns its value of \<open>random()\<close>. When the second
  thread starts after the first has returned, there is one seed.
\<close>

theorem papplGetRand_seeds_twice:
  "reaches_fallback ex_build (ex_rand_env None 100 5)
   \<and> reaches_fallback ex_build (ex_rand_env None 100 6)
   \<and> rand_schedule ex_build [0, 1, 0, 1, 0, 1, 0, 1]
        [(ex_rand_env None 100 5, Entry), (ex_rand_env None 100 6, Entry)] rand_init
      = ([(ex_rand_env None 100 5, Returned 5), (ex_rand_env None 100 6, Returned 6)],
         \<lparr> first_time = False, srandom_calls = [100, 100] \<rparr>)
   \<and> rand_schedule ex_build [0, 0, 0, 0, 1, 1, 1, 1]
        [(ex_rand_env None 100 5, Entry), (ex_rand_env None 100 6, Entry)] rand_init
      = ([(ex_rand_env None 100 5, Returned 5), (ex_rand_env None 100 6, Returned 6)],
         \<lparr> first_time = False, srandom_calls = [100] \<rparr>)"
  by (simp add: reaches_fallback_def rand_step_def platform_random_def ex_build_def
      ex_rand_env_def rand_init_def)


end
